theory Spec2Isabelle
  imports Main
begin

section \<open>Data model of the HR directory (employees/api_views.py)\<close>

text \<open>
  The handlers of \<^verbatim>\<open>employees/api_views.py\<close> are embedded as functions from the
  acting user, the request and the database to an outcome and the database afterwards.
  The database is a record of tables (lists of rows), the auto-increment sequences of
  the tables the handlers insert into, and the trace of the ORM calls made so far, so
  that the order of policy checks and store accesses is part of the model.

  \<^verbatim>\<open>accounts/models.py\<close>, \<^verbatim>\<open>employees/models.py\<close> and
  \<^verbatim>\<open>employees/serializers.py\<close> are not part of the sources: what the handlers
  need from them (integrity constraints, defaults, validation) is taken as a parameter
  (records \<open>schema\<close> and \<open>serializers\<close> below).
\<close>

subsection \<open>Values, rows and tables\<close>

text \<open>A value of a request payload, as the handler copies it into a model field.\<close>

datatype val = VNone | VInt int | VStr string

type_synonym payload = "string \<rightharpoonup> val"

record user =
  u_id :: nat
  username :: string
  password :: string
  first_name :: string
  last_name :: string
  email :: string
  role :: string

record employee =
  e_id :: nat
  employee_id :: string
  e_user :: nat
  department_id :: val
  designation_id :: val
  date_of_joining :: val
  basic_salary :: val

record department =
  d_id :: nat
  d_name :: string
  manager :: "nat option"

record designation =
  g_id :: nat
  title :: string

record profile =
  p_id :: nat
  p_employee :: nat
  p_fields :: "(string \<times> val) list"
  verified :: bool

datatype entity = UserE | EmployeeE | DepartmentE | DesignationE | ProfileE

datatype access = Read entity | Write entity

record db =
  users :: "user list"
  employees :: "employee list"
  departments :: "department list"
  designations :: "designation list"
  profiles :: "profile list"
  user_seq :: nat
  employee_seq :: nat
  profile_seq :: nat
  trace :: "access list"

text \<open>
  What the handlers use of the model and serializer declarations that are not in the
  sources. \<open>user_ok rows r\<close> says that the database accepts row \<open>r\<close> beside the
  rows \<open>rows\<close> (uniqueness, foreign keys, column types); a rejected write raises
  \<open>DatabaseError\<close> (an \<open>IntegrityError\<close> or a \<open>DataError\<close>). \<open>new_employee_id\<close> is the default of the column
  \<open>employee_id\<close>, which \<open>create_employee_api\<close> does not pass.
\<close>

record schema =
  user_ok :: "user list \<Rightarrow> user \<Rightarrow> bool"
  employee_ok :: "employee list \<Rightarrow> employee \<Rightarrow> bool"
  department_ok :: "department list \<Rightarrow> department \<Rightarrow> bool"
  profile_ok :: "profile list \<Rightarrow> profile \<Rightarrow> bool"
  new_employee_id :: "employee list \<Rightarrow> nat \<Rightarrow> string"

text \<open>\<open>serializer.validated_data\<close> of \<open>EmployeeCreateSerializer\<close>: the keys read
  with \<open>[...]\<close> are present, the keys read with \<open>.get(..., '')\<close> may be absent.\<close>

record create_data =
  cd_username :: string
  cd_password :: string
  cd_first_name :: "string option"
  cd_last_name :: "string option"
  cd_email :: "string option"
  cd_department :: val
  cd_designation :: val
  cd_date_of_joining :: val
  cd_basic_salary :: val

text \<open>
  \<open>create_serializer data\<close> is \<open>EmployeeCreateSerializer(data=...)\<close>: the errors
  when \<open>is_valid()\<close> is false, the validated data otherwise.
  \<open>profile_serializer data p\<close> is \<open>EmployeeProfileSerializer(p, data=..., partial=True)\<close>:
  the errors, or the instance as \<open>serializer.save()\<close> writes it.
\<close>

record serializers =
  create_serializer :: "payload \<Rightarrow> string list + create_data"
  profile_serializer :: "payload \<Rightarrow> profile \<Rightarrow> string list + profile"

subsection \<open>Outcomes\<close>

text \<open>Exceptions that leave a handler; the framework answers \<open>Http404\<close> with status
  404 and the other two with status 500.\<close>

datatype exn = Http404 | MultipleObjectsReturned | DatabaseError

datatype body =
    ErrorBody string
  | Errors "string list"
  | EmployeeData employee
  | EmployeeList "employee list"
  | DepartmentData department
  | DepartmentList "department list"
  | DesignationList "designation list"
  | ProfileData profile "employee option"
  | EmployeeProfile employee profile
  | ProfileList "profile list"
  | Message string
  | NoBody

datatype response = Response body nat

type_synonym outcome = "exn + response"

definition HTTP_200_OK :: nat where "HTTP_200_OK = 200"
definition HTTP_201_CREATED :: nat where "HTTP_201_CREATED = 201"
definition HTTP_204_NO_CONTENT :: nat where "HTTP_204_NO_CONTENT = 204"
definition HTTP_400_BAD_REQUEST :: nat where "HTTP_400_BAD_REQUEST = 400"
definition HTTP_403_FORBIDDEN :: nat where "HTTP_403_FORBIDDEN = 403"

text \<open>\<open>Response({'error': 'Permission denied'}, status=status.HTTP_403_FORBIDDEN)\<close>\<close>

definition PermissionDenied :: response where
  "PermissionDenied = Response (ErrorBody ''Permission denied'') HTTP_403_FORBIDDEN"

subsection \<open>The ORM calls\<close>

definition touch :: "access \<Rightarrow> db \<Rightarrow> db" where
  "touch a s = s\<lparr>trace := trace s @ [a]\<rparr>"

text \<open>\<open>QuerySet.get\<close>: exactly one matching row, or an exception.\<close>

datatype 'a lookup = DoesNotExist | MultipleObjects | Found 'a

fun get_row :: "'a list \<Rightarrow> 'a lookup" where
  "get_row [] = DoesNotExist"
| "get_row [x] = Found x"
| "get_row (x # y # zs) = MultipleObjects"

text \<open>\<open>Model.save()\<close> of an instance with a primary key: the rows with that key are
  replaced, and the instance is inserted when there is none.\<close>

definition upsert :: "('a \<Rightarrow> nat) \<Rightarrow> 'a \<Rightarrow> 'a list \<Rightarrow> 'a list" where
  "upsert key r rows =
     (if list_ex (\<lambda>q. key q = key r) rows
      then map (\<lambda>q. if key q = key r then r else q) rows
      else rows @ [r])"

definition Employee_get :: "(employee \<Rightarrow> bool) \<Rightarrow> db \<Rightarrow> employee lookup \<times> db" where
  "Employee_get P s = (get_row (filter P (employees s)), touch (Read EmployeeE) s)"

definition Department_get :: "(department \<Rightarrow> bool) \<Rightarrow> db \<Rightarrow> department lookup \<times> db" where
  "Department_get P s = (get_row (filter P (departments s)), touch (Read DepartmentE) s)"

definition Profile_get :: "(profile \<Rightarrow> bool) \<Rightarrow> db \<Rightarrow> profile lookup \<times> db" where
  "Profile_get P s = (get_row (filter P (profiles s)), touch (Read ProfileE) s)"

text \<open>
  An insert takes the next value of the table's auto-increment sequence as primary key
  (\<open>user_seq\<close>, \<open>employee_seq\<close> and \<open>profile_seq\<close> hold the last value issued,
  so the key of a deleted row is not issued again); a rejected insert leaves the table
  and its sequence as they were.

  \<open>User.objects.create_user(username=..., ..., role=...)\<close>; the hashing of the
  password is not modelled.
\<close>

definition User_create_user ::
  "schema \<Rightarrow> string \<Rightarrow> string \<Rightarrow> string \<Rightarrow> string \<Rightarrow> string \<Rightarrow> string \<Rightarrow> db
     \<Rightarrow> (exn + user) \<times> db" where
  "User_create_user M uname pw fname lname mail r s =
     (let u = \<lparr>u_id = Suc (user_seq s), username = uname, password = pw,
                first_name = fname, last_name = lname, email = mail, role = r\<rparr>
      in if user_ok M (users s) u
         then (Inr u, touch (Write UserE) (s\<lparr>users := users s @ [u], user_seq := u_id u\<rparr>))
         else (Inl DatabaseError, touch (Write UserE) s))"

text \<open>\<open>Employee.objects.create(user=..., department=..., designation=...,
  date_of_joining=..., basic_salary=...)\<close>\<close>

definition Employee_create ::
  "schema \<Rightarrow> nat \<Rightarrow> val \<Rightarrow> val \<Rightarrow> val \<Rightarrow> val \<Rightarrow> db \<Rightarrow> (exn + employee) \<times> db" where
  "Employee_create M uid dep des doj sal s =
     (let k = Suc (employee_seq s);
          e = \<lparr>e_id = k, employee_id = new_employee_id M (employees s) k, e_user = uid,
                department_id = dep, designation_id = des, date_of_joining = doj,
                basic_salary = sal\<rparr>
      in if employee_ok M (employees s) e
         then (Inr e, touch (Write EmployeeE)
                        (s\<lparr>employees := employees s @ [e], employee_seq := k\<rparr>))
         else (Inl DatabaseError, touch (Write EmployeeE) s))"

text \<open>\<open>employee.save()\<close>\<close>

definition Employee_save :: "schema \<Rightarrow> employee \<Rightarrow> db \<Rightarrow> (exn + unit) \<times> db" where
  "Employee_save M e s =
     (if employee_ok M (filter (\<lambda>q. e_id q \<noteq> e_id e) (employees s)) e
      then (Inr (), touch (Write EmployeeE) (s\<lparr>employees := upsert e_id e (employees s)\<rparr>))
      else (Inl DatabaseError, touch (Write EmployeeE) s))"

text \<open>\<open>department.save()\<close>\<close>

definition Department_save :: "schema \<Rightarrow> department \<Rightarrow> db \<Rightarrow> (exn + unit) \<times> db" where
  "Department_save M d s =
     (if department_ok M (filter (\<lambda>q. d_id q \<noteq> d_id d) (departments s)) d
      then (Inr (), touch (Write DepartmentE) (s\<lparr>departments := upsert d_id d (departments s)\<rparr>))
      else (Inl DatabaseError, touch (Write DepartmentE) s))"

text \<open>
  Modelled from the spec: the \<open>on_delete\<close> declarations of \<open>employees/models.py\<close>,
  which is not in the sources (deleting the owning principal cascades to the Employee
  record, and the Profile survives). The call is \<open>employee.user.delete()\<close>: the user
  row is loaded through the foreign key and deleted.
\<close>

definition User_delete :: "nat \<Rightarrow> db \<Rightarrow> db" where
  "User_delete uid s =
     touch (Write EmployeeE) (touch (Write UserE) (touch (Read UserE)
       (s\<lparr>users := filter (\<lambda>u. u_id u \<noteq> uid) (users s),
          employees := filter (\<lambda>e. e_user e \<noteq> uid) (employees s)\<rparr>)))"

text \<open>
  Modelled from the spec: the column defaults of \<open>EmployeeProfile\<close>, whose declaration
  in \<open>employees/models.py\<close> is not in the sources (\<open>verified\<close> boolean, default
  false; no personal data yet). The call is
  \<open>EmployeeProfile.objects.create(employee=user)\<close>.
\<close>

definition Profile_create :: "schema \<Rightarrow> nat \<Rightarrow> db \<Rightarrow> (exn + profile) \<times> db" where
  "Profile_create M owner s =
     (let p = \<lparr>p_id = Suc (profile_seq s), p_employee = owner,
                p_fields = [], verified = False\<rparr>
      in if profile_ok M (profiles s) p
         then (Inr p, touch (Write ProfileE)
                        (s\<lparr>profiles := profiles s @ [p], profile_seq := p_id p\<rparr>))
         else (Inl DatabaseError, touch (Write ProfileE) s))"

text \<open>\<open>EmployeeProfile.objects.get_or_create(employee=user)\<close>\<close>

definition Profile_get_or_create :: "schema \<Rightarrow> nat \<Rightarrow> db \<Rightarrow> (exn + profile) \<times> db" where
  "Profile_get_or_create M owner s =
     (case Profile_get (\<lambda>p. p_employee p = owner) s of
        (Found p, s1) \<Rightarrow> (Inr p, s1)
      | (MultipleObjects, s1) \<Rightarrow> (Inl MultipleObjectsReturned, s1)
      | (DoesNotExist, s1) \<Rightarrow> Profile_create M owner s1)"

text \<open>\<open>profile.save()\<close>\<close>

definition Profile_save :: "schema \<Rightarrow> profile \<Rightarrow> db \<Rightarrow> (exn + unit) \<times> db" where
  "Profile_save M p s =
     (if profile_ok M (filter (\<lambda>q. p_id q \<noteq> p_id p) (profiles s)) p
      then (Inr (), touch (Write ProfileE) (s\<lparr>profiles := upsert p_id p (profiles s)\<rparr>))
      else (Inl DatabaseError, touch (Write ProfileE) s))"

text \<open>The row a foreign key to \<open>User\<close> points to (\<open>profile.employee\<close>).\<close>

definition user_of :: "db \<Rightarrow> nat \<Rightarrow> user option" where
  "user_of s uid = find (\<lambda>u. u_id u = uid) (users s)"

section \<open>The handlers\<close>

text \<open>
  Every handler takes \<open>request.user\<close> (an authenticated user, by
  \<open>IsAuthenticated\<close>), the parts of the request it reads and the database, and
  returns the outcome and the database afterwards. \<open>@api_view([...])\<close> answers
  an HTTP verb that is not listed with status 405 before the handler runs.
\<close>

datatype http_method = GET | POST | PUT | DELETE

definition MethodNotAllowed :: response where
  "MethodNotAllowed = Response (ErrorBody ''Method not allowed'') 405"

subsection \<open>employee_list_api\<close>

definition employee_list_api :: "user \<Rightarrow> db \<Rightarrow> outcome \<times> db" where
  "employee_list_api usr s =
     (if role usr \<notin> {''ADMIN'', ''HR''} then (Inr PermissionDenied, s)
      else (Inr (Response (EmployeeList (employees s)) HTTP_200_OK),
            touch (Read EmployeeE) s))"

subsection \<open>create_employee_api\<close>

definition create_employee_api ::
  "schema \<Rightarrow> serializers \<Rightarrow> user \<Rightarrow> payload \<Rightarrow> db \<Rightarrow> outcome \<times> db" where
  "create_employee_api M S usr data s =
     (if role usr \<notin> {''ADMIN'', ''HR''} then (Inr PermissionDenied, s)
      else case create_serializer S data of
        Inl errors \<Rightarrow> (Inr (Response (Errors errors) HTTP_400_BAD_REQUEST), s)
      | Inr vd \<Rightarrow>
         (case User_create_user M (cd_username vd) (cd_password vd)
                 (case cd_first_name vd of None \<Rightarrow> [] | Some x \<Rightarrow> x)
                 (case cd_last_name vd of None \<Rightarrow> [] | Some x \<Rightarrow> x)
                 (case cd_email vd of None \<Rightarrow> [] | Some x \<Rightarrow> x)
                 ''EMPLOYEE'' s of
            (Inl e, s1) \<Rightarrow> (Inl e, s1)
          | (Inr new_user, s1) \<Rightarrow>
             (case Employee_create M (u_id new_user) (cd_department vd) (cd_designation vd)
                     (cd_date_of_joining vd) (cd_basic_salary vd) s1 of
                (Inl e, s2) \<Rightarrow> (Inl e, s2)
              | (Inr employee, s2) \<Rightarrow>
                 (case Profile_create M (u_id new_user) s2 of
                    (Inl e, s3) \<Rightarrow> (Inl e, s3)
                  | (Inr _, s3) \<Rightarrow>
                      (Inr (Response (EmployeeData employee) HTTP_201_CREATED), s3)))))"

subsection \<open>employee_detail_api\<close>

text \<open>The four conditional assignments of the PUT branch; \<open>k in request.data\<close> is
  \<open>data k \<noteq> None\<close>.\<close>

definition assign_fields :: "payload \<Rightarrow> employee \<Rightarrow> employee" where
  "assign_fields data e =
     (let e1 = (case data ''department'' of None \<Rightarrow> e | Some v \<Rightarrow> e\<lparr>department_id := v\<rparr>);
          e2 = (case data ''designation'' of None \<Rightarrow> e1 | Some v \<Rightarrow> e1\<lparr>designation_id := v\<rparr>);
          e3 = (case data ''basic_salary'' of None \<Rightarrow> e2 | Some v \<Rightarrow> e2\<lparr>basic_salary := v\<rparr>);
          e4 = (case data ''date_of_joining'' of None \<Rightarrow> e3 | Some v \<Rightarrow> e3\<lparr>date_of_joining := v\<rparr>)
      in e4)"

definition employee_detail_api ::
  "schema \<Rightarrow> user \<Rightarrow> http_method \<Rightarrow> nat \<Rightarrow> payload \<Rightarrow> db \<Rightarrow> outcome \<times> db" where
  "employee_detail_api M usr meth pk data s =
     (if meth \<notin> {GET, PUT, DELETE} then (Inr MethodNotAllowed, s)
      else if role usr \<notin> {''ADMIN'', ''HR''} then (Inr PermissionDenied, s)
      else case Employee_get (\<lambda>e. e_id e = pk) s of
        (DoesNotExist, s1) \<Rightarrow> (Inl Http404, s1)
      | (MultipleObjects, s1) \<Rightarrow> (Inl MultipleObjectsReturned, s1)
      | (Found employee, s1) \<Rightarrow>
          if meth = GET then (Inr (Response (EmployeeData employee) HTTP_200_OK), s1)
          else if meth = PUT then
            (let employee' = assign_fields data employee
             in case Employee_save M employee' s1 of
                  (Inl e, s2) \<Rightarrow> (Inl e, s2)
                | (Inr _, s2) \<Rightarrow> (Inr (Response (EmployeeData employee') HTTP_200_OK), s2))
          else (Inr (Response NoBody HTTP_204_NO_CONTENT), User_delete (e_user employee) s1))"

subsection \<open>departments_api and designations_api\<close>

definition departments_api :: "user \<Rightarrow> db \<Rightarrow> outcome \<times> db" where
  "departments_api usr s =
     (Inr (Response (DepartmentList (departments s)) HTTP_200_OK),
      touch (Read EmployeeE) (touch (Read DepartmentE) s))"

definition designations_api :: "user \<Rightarrow> db \<Rightarrow> outcome \<times> db" where
  "designations_api usr s =
     (Inr (Response (DesignationList (designations s)) HTTP_200_OK),
      touch (Read DesignationE) s)"

subsection \<open>update_department_manager_api\<close>

text \<open>\<open>dep\<close> and \<open>man\<close> are \<open>request.data.get('department_id')\<close> and
  \<open>request.data.get('manager_id')\<close>, read as primary keys; \<open>if manager_id\<close> fails
  for \<open>None\<close> and for 0.\<close>

definition update_department_manager_api ::
  "schema \<Rightarrow> user \<Rightarrow> nat option \<Rightarrow> nat option \<Rightarrow> db \<Rightarrow> outcome \<times> db" where
  "update_department_manager_api M usr dep man s =
     (if role usr \<notin> {''ADMIN'', ''HR''} then (Inr PermissionDenied, s)
      else case Department_get (\<lambda>d. Some (d_id d) = dep) s of
        (DoesNotExist, s1) \<Rightarrow> (Inl Http404, s1)
      | (MultipleObjects, s1) \<Rightarrow> (Inl MultipleObjectsReturned, s1)
      | (Found department, s1) \<Rightarrow>
         (case (if man \<noteq> None \<and> man \<noteq> Some 0
                then (case Employee_get (\<lambda>e. Some (e_id e) = man) s1 of
                        (DoesNotExist, s2) \<Rightarrow> (Inl (Inl Http404), s2)
                      | (MultipleObjects, s2) \<Rightarrow> (Inl (Inl MultipleObjectsReturned), s2)
                      | (Found m, s2) \<Rightarrow> (Inr (department\<lparr>manager := Some (e_id m)\<rparr>), s2))
                else (Inr (department\<lparr>manager := None\<rparr>), s1)) of
            (Inl out, s2) \<Rightarrow> (out, s2)
          | (Inr department', s2) \<Rightarrow>
             (case Department_save M department' s2 of
                (Inl e, s3) \<Rightarrow> (Inl e, s3)
              | (Inr _, s3) \<Rightarrow>
                  (Inr (Response (DepartmentData department') HTTP_200_OK), s3))))"

subsection \<open>employee_profile_api\<close>

definition employee_profile_api ::
  "schema \<Rightarrow> serializers \<Rightarrow> user \<Rightarrow> http_method \<Rightarrow> payload \<Rightarrow> db \<Rightarrow> outcome \<times> db" where
  "employee_profile_api M S usr meth data s =
     (if meth \<notin> {GET, PUT} then (Inr MethodNotAllowed, s)
      else case Profile_get_or_create M (u_id usr) s of
        (Inl e, s1) \<Rightarrow> (Inl e, s1)
      | (Inr profile, s1) \<Rightarrow>
          if meth = GET then
            (case Employee_get (\<lambda>e. e_user e = u_id usr) s1 of
               (Found emp_record, s2) \<Rightarrow>
                 (Inr (Response (ProfileData profile (Some emp_record)) HTTP_200_OK), s2)
             | (DoesNotExist, s2) \<Rightarrow>
                 (Inr (Response (ProfileData profile None) HTTP_200_OK), s2)
             | (MultipleObjects, s2) \<Rightarrow> (Inl MultipleObjectsReturned, s2))
          else
            (case profile_serializer S data profile of
               Inl errors \<Rightarrow> (Inr (Response (Errors errors) HTTP_400_BAD_REQUEST), s1)
             | Inr saved \<Rightarrow>
                (case Profile_save M saved s1 of
                   (Inl e, s2) \<Rightarrow> (Inl e, s2)
                 | (Inr _, s2) \<Rightarrow>
                    (let profile' = saved\<lparr>verified := False\<rparr>
                     in case Profile_save M profile' s2 of
                          (Inl e, s3) \<Rightarrow> (Inl e, s3)
                        | (Inr _, s3) \<Rightarrow>
                            (Inr (Response (ProfileData profile' None) HTTP_200_OK), s3)))))"

subsection \<open>view_profile_api\<close>

text \<open>
  \<open>emp\<close> is \<open>request.GET.get('emp')\<close>; \<open>not emp_id\<close> holds for \<open>None\<close> and for
  the empty string. \<open>logged_in_emp\<close> is an \<open>Employee\<close> instance or \<open>None\<close>, and a
  model instance is truthy. An early \<open>return\<close> of the handler is the \<open>Inl\<close> of a
  stage.
\<close>

definition view_profile_api :: "schema \<Rightarrow> user \<Rightarrow> string option \<Rightarrow> db \<Rightarrow> outcome \<times> db" where
  "view_profile_api M usr emp s =
     (let emp_id = (case emp of None \<Rightarrow> [] | Some x \<Rightarrow> x) in
      case (if role usr \<in> {''MANAGER'', ''EMPLOYEE''}
            then (case Employee_get (\<lambda>e. e_user e = u_id usr) s of
                    (DoesNotExist, s1) \<Rightarrow> (Inl (Inr PermissionDenied), s1)
                  | (MultipleObjects, s1) \<Rightarrow> (Inl (Inl MultipleObjectsReturned), s1)
                  | (Found e, s1) \<Rightarrow> (Inr (Some e), s1))
            else (Inr None, s)) of
        (Inl out, s1) \<Rightarrow> (out, s1)
      | (Inr logged_in_emp, s1) \<Rightarrow>
         (case (if emp_id = []
                then (case logged_in_emp of
                        None \<Rightarrow> (Inl (Inr PermissionDenied), s1)
                      | Some e \<Rightarrow> (Inr e, s1))
                else (case Employee_get (\<lambda>e. employee_id e = emp_id) s1 of
                        (DoesNotExist, s2) \<Rightarrow> (Inl (Inl Http404), s2)
                      | (MultipleObjects, s2) \<Rightarrow> (Inl (Inl MultipleObjectsReturned), s2)
                      | (Found target, s2) \<Rightarrow>
                          if role usr \<in> {''ADMIN'', ''HR''} then (Inr target, s2)
                          else if role usr = ''MANAGER'' then
                            (if (case logged_in_emp of None \<Rightarrow> True
                                 | Some me \<Rightarrow> department_id target \<noteq> department_id me)
                             then (Inl (Inr PermissionDenied), s2)
                             else (Inr target, s2))
                          else
                            (if logged_in_emp = None \<or> e_user target \<noteq> u_id usr
                             then (Inl (Inr PermissionDenied), s2)
                             else (Inr target, s2)))) of
            (Inl out, s2) \<Rightarrow> (out, s2)
          | (Inr target, s2) \<Rightarrow>
             (case Profile_get_or_create M (e_user target) s2 of
                (Inl e, s3) \<Rightarrow> (Inl e, s3)
              | (Inr profile, s3) \<Rightarrow>
                  (Inr (Response (EmployeeProfile target profile) HTTP_200_OK), s3))))"

subsection \<open>pending_profiles_api and approve_profile_api\<close>

text \<open>\<open>EmployeeProfile.objects.filter(verified=False, employee__role="EMPLOYEE")\<close>:
  the profiles joined with their users.\<close>

definition pending_profiles_api :: "user \<Rightarrow> db \<Rightarrow> outcome \<times> db" where
  "pending_profiles_api usr s =
     (if role usr \<notin> {''ADMIN'', ''HR''} then (Inr PermissionDenied, s)
      else
        (let pending = filter (\<lambda>p. verified p = False
                                \<and> (case user_of s (p_employee p) of
                                      None \<Rightarrow> False
                                    | Some u \<Rightarrow> role u = ''EMPLOYEE''))
                         (profiles s)
         in (Inr (Response (ProfileList pending) HTTP_200_OK), touch (Read ProfileE) s)))"

definition approve_profile_api :: "schema \<Rightarrow> user \<Rightarrow> nat \<Rightarrow> db \<Rightarrow> outcome \<times> db" where
  "approve_profile_api M usr profile_id s =
     (if role usr \<notin> {''ADMIN'', ''HR''} then (Inr PermissionDenied, s)
      else case Profile_get (\<lambda>p. p_id p = profile_id) s of
        (DoesNotExist, s1) \<Rightarrow> (Inl Http404, s1)
      | (MultipleObjects, s1) \<Rightarrow> (Inl MultipleObjectsReturned, s1)
      | (Found profile, s1) \<Rightarrow>
         (case Profile_save M (profile\<lparr>verified := True\<rparr>) s1 of
            (Inl e, s2) \<Rightarrow> (Inl e, s2)
          | (Inr _, s2) \<Rightarrow>
              (Inr (Response (Message ''Profile approved successfully'') HTTP_200_OK), s2)))"

section \<open>Example data\<close>

text \<open>A schema that accepts every row, and one whose salary column holds integers
  below \<open>10^8\<close> only.\<close>

definition open_schema :: schema where
  "open_schema = \<lparr>user_ok = (\<lambda>rows r. True), employee_ok = (\<lambda>rows r. True),
     department_ok = (\<lambda>rows r. True), profile_ok = (\<lambda>rows r. True),
     new_employee_id = (\<lambda>rows k. replicate k (CHR ''I''))\<rparr>"

definition salary_schema :: schema where
  "salary_schema = open_schema\<lparr>employee_ok :=
     (\<lambda>rows r. case basic_salary r of VInt n \<Rightarrow> n < 100000000 | _ \<Rightarrow> False)\<rparr>"

text \<open>Serializers that require the keys the handler reads with \<open>[...]\<close> and pass the
  values on; the profile serializer writes the field \<open>phone\<close> when it is submitted.\<close>

definition plain_serializers :: serializers where
  "plain_serializers =
     \<lparr>create_serializer = (\<lambda>d.
        case (d ''username'', d ''password'') of
          (Some (VStr u), Some (VStr p)) \<Rightarrow>
            (case (d ''department'', d ''designation'', d ''date_of_joining'',
                   d ''basic_salary'') of
               (Some dep, Some des, Some doj, Some sal) \<Rightarrow>
                 Inr \<lparr>cd_username = u, cd_password = p, cd_first_name = None,
                      cd_last_name = None, cd_email = None, cd_department = dep,
                      cd_designation = des, cd_date_of_joining = doj,
                      cd_basic_salary = sal\<rparr>
             | _ \<Rightarrow> Inl [''This field is required.''])
        | _ \<Rightarrow> Inl [''This field is required.'']),
      profile_serializer = (\<lambda>d p.
        case d ''phone'' of
          None \<Rightarrow> Inr p
        | Some v \<Rightarrow> Inr (p\<lparr>p_fields := (''phone'', v)
                              # filter (\<lambda>kv. fst kv \<noteq> ''phone'') (p_fields p)\<rparr>))\<rparr>"

definition mk_user :: "nat \<Rightarrow> string \<Rightarrow> string \<Rightarrow> user" where
  "mk_user k name r = \<lparr>u_id = k, username = name, password = ''x'', first_name = [],
     last_name = [], email = [], role = r\<rparr>"

definition mk_employee :: "nat \<Rightarrow> string \<Rightarrow> nat \<Rightarrow> int \<Rightarrow> employee" where
  "mk_employee k eid uid dep = \<lparr>e_id = k, employee_id = eid, e_user = uid,
     department_id = VInt dep, designation_id = VInt 1,
     date_of_joining = VStr ''2024-01-01'', basic_salary = VInt 1000\<rparr>"

definition admin_a :: user where "admin_a = mk_user 1 ''ann'' ''ADMIN''"
definition manager_m :: user where "manager_m = mk_user 2 ''max'' ''MANAGER''"
definition employee_e :: user where "employee_e = mk_user 3 ''eve'' ''EMPLOYEE''"
definition employee_f :: user where "employee_f = mk_user 4 ''fay'' ''EMPLOYEE''"
definition manager_n :: user where "manager_n = mk_user 5 ''ned'' ''MANAGER''"

text \<open>Max manages department 1, where Eve works; Fay works in department 2; Ann and
  Ned have no Employee record. Eve's profile is verified, Max's is not.\<close>

definition db1 :: db where
  "db1 = \<lparr>users = [admin_a, manager_m, employee_e, employee_f, manager_n],
     employees = [mk_employee 1 ''E1'' 2 1, mk_employee 2 ''E2'' 3 1, mk_employee 3 ''E3'' 4 2],
     departments = [\<lparr>d_id = 1, d_name = ''Sales'', manager = Some 1\<rparr>,
                    \<lparr>d_id = 2, d_name = ''Support'', manager = None\<rparr>],
     designations = [\<lparr>g_id = 1, title = ''Clerk''\<rparr>],
     profiles = [\<lparr>p_id = 1, p_employee = 2, p_fields = [], verified = False\<rparr>,
                 \<lparr>p_id = 2, p_employee = 3, p_fields = [], verified = True\<rparr>,
                 \<lparr>p_id = 3, p_employee = 4, p_fields = [], verified = False\<rparr>],
     user_seq = 5, employee_seq = 3, profile_seq = 3,
     trace = []\<rparr>"

definition onboard_payload :: "int \<Rightarrow> payload" where
  "onboard_payload sal =
     [''username'' \<mapsto> VStr ''joe'', ''password'' \<mapsto> VStr ''pw'', ''role'' \<mapsto> VStr ''ADMIN'',
      ''department'' \<mapsto> VInt 1, ''designation'' \<mapsto> VInt 1,
      ''date_of_joining'' \<mapsto> VStr ''2025-05-01'', ''basic_salary'' \<mapsto> VInt sal]"

definition salary_only :: payload where
  "salary_only = [''basic_salary'' \<mapsto> VInt 2500]"

section \<open>Properties\<close>

subsection \<open>Rows and tables\<close>

lemma filter_none: "(\<forall>x \<in> set xs. \<not> P x) \<Longrightarrow> filter P xs = []"
  by (induction xs) auto

lemma filter_single_unique:
  assumes "filter P xs = [p]" and "q \<in> set xs" and "P q"
  shows "q = p"
proof -
  from assms(2,3) have "q \<in> set (filter P xs)" by simp
  with assms(1) show ?thesis by simp
qed

lemma filter_single_mem:
  assumes "filter P xs = [p]"
  shows "p \<in> set xs \<and> P p"
proof -
  have "p \<in> set (filter P xs)" using assms by simp
  then show ?thesis by simp
qed

lemma upsert_present:
  assumes "filter (\<lambda>q. key q = key r) rows = [p]"
  shows "upsert key r rows = map (\<lambda>q. if key q = key r then r else q) rows"
proof -
  from filter_single_mem [OF assms] have "list_ex (\<lambda>q. key q = key r) rows"
    by (auto simp: list_ex_iff)
  then show ?thesis by (simp add: upsert_def)
qed

lemma upsert_same_key:
  "filter (\<lambda>q. key q = key r) (upsert key r rows) \<noteq> []
   \<and> (\<forall>q \<in> set (upsert key r rows). key q = key r \<longrightarrow> q = r)"
  by (auto simp: upsert_def list_ex_iff filter_empty_conv)

lemma replace_other_keys:
  "filter (\<lambda>q. key q \<noteq> key r) (map (\<lambda>q. if key q = key r then r else q) rows)
     = filter (\<lambda>q. key q \<noteq> key r) rows"
  by (induction rows) auto

lemma upsert_other_keys:
  "filter (\<lambda>q. key q \<noteq> key r) (upsert key r rows) = filter (\<lambda>q. key q \<noteq> key r) rows"
  by (simp add: upsert_def replace_other_keys)

lemma upsert_single:
  assumes "filter (\<lambda>q. key q = key r) rows = [p]"
  shows "filter (\<lambda>q. key q = key r) (upsert key r rows) = [r]"
proof -
  have "filter (\<lambda>q. key q = key r) (map (\<lambda>q. if key q = key r then r else q) rows)
        = map (\<lambda>q. if key q = key r then r else q) (filter (\<lambda>q. key q = key r) rows)"
    by (induction rows) auto
  moreover have "key p = key r" using filter_single_mem [OF assms] by simp
  ultimately show ?thesis using assms by (simp add: upsert_present [OF assms])
qed

lemma upsert_noop:
  assumes "filter (\<lambda>q. key q = key r) rows = [r]"
  shows "upsert key r rows = rows"
proof -
  have "map (\<lambda>q. if key q = key r then r else q) rows = rows"
    using filter_single_unique [OF assms] by (intro map_idI) auto
  then show ?thesis by (simp add: upsert_present [OF assms])
qed

subsection \<open>Denials\<close>

lemmas http_defs = PermissionDenied_def MethodNotAllowed_def HTTP_200_OK_def HTTP_201_CREATED_def
  HTTP_204_NO_CONTENT_def HTTP_400_BAD_REQUEST_def HTTP_403_FORBIDDEN_def

lemma profile_stage_not_denied:
  "fst (case Profile_get_or_create M owner s of
          (Inl e, s3) \<Rightarrow> (Inl e, s3)
        | (Inr profile, s3) \<Rightarrow> (Inr (Response (f profile) HTTP_200_OK), s3)) \<noteq> Inr PermissionDenied"
  by (simp add: http_defs split: prod.splits sum.splits)

lemma role_gate_denies:
  assumes "role usr \<notin> {''ADMIN'', ''HR''}"
  shows "employee_list_api usr s = (Inr PermissionDenied, s)"
    and "create_employee_api M S usr data s = (Inr PermissionDenied, s)"
    and "meth \<noteq> POST \<Longrightarrow> employee_detail_api M usr meth pk data s = (Inr PermissionDenied, s)"
    and "update_department_manager_api M usr dep man s = (Inr PermissionDenied, s)"
    and "pending_profiles_api usr s = (Inr PermissionDenied, s)"
    and "approve_profile_api M usr pid s = (Inr PermissionDenied, s)"
proof -
  show "meth \<noteq> POST \<Longrightarrow> employee_detail_api M usr meth pk data s = (Inr PermissionDenied, s)"
    using assms by (cases meth) (simp_all add: employee_detail_api_def)
qed (use assms in \<open>simp_all add: employee_list_api_def create_employee_api_def
        update_department_manager_api_def pending_profiles_api_def approve_profile_api_def\<close>)

lemma role_gate_admits:
  assumes "role usr \<in> {''ADMIN'', ''HR''}"
  shows "fst (employee_list_api usr s) \<noteq> Inr PermissionDenied"
    and "fst (create_employee_api M S usr data s) \<noteq> Inr PermissionDenied"
    and "fst (employee_detail_api M usr meth pk data s) \<noteq> Inr PermissionDenied"
    and "fst (update_department_manager_api M usr dep man s) \<noteq> Inr PermissionDenied"
    and "fst (pending_profiles_api usr s) \<noteq> Inr PermissionDenied"
    and "fst (approve_profile_api M usr pid s) \<noteq> Inr PermissionDenied"
proof -
  show "fst (employee_list_api usr s) \<noteq> Inr PermissionDenied"
    using assms by (simp add: employee_list_api_def http_defs)
  show "fst (create_employee_api M S usr data s) \<noteq> Inr PermissionDenied"
    using assms by (auto simp: create_employee_api_def http_defs split: sum.splits prod.splits)
  show "fst (employee_detail_api M usr meth pk data s) \<noteq> Inr PermissionDenied"
    using assms
    by (auto simp: employee_detail_api_def http_defs Let_def
        split: sum.splits prod.splits lookup.splits)
  show "fst (update_department_manager_api M usr dep man s) \<noteq> Inr PermissionDenied"
    using assms
    by (auto simp: update_department_manager_api_def http_defs
        split: sum.splits prod.splits lookup.splits if_splits)
  show "fst (pending_profiles_api usr s) \<noteq> Inr PermissionDenied"
    using assms by (simp add: pending_profiles_api_def http_defs)
  show "fst (approve_profile_api M usr pid s) \<noteq> Inr PermissionDenied"
    using assms
    by (auto simp: approve_profile_api_def http_defs split: sum.splits prod.splits lookup.splits)
qed

lemma detail_post_not_denied:
  "fst (employee_detail_api M usr POST pk data s) \<noteq> Inr PermissionDenied"
  by (simp add: employee_detail_api_def http_defs)

text \<open>The four ways in which \<open>view_profile_api\<close> denies, and no other.\<close>

lemma view_denied_no_target:
  assumes "role usr \<noteq> ''MANAGER''" "role usr \<noteq> ''EMPLOYEE''" "emp = None \<or> emp = Some []"
  shows "view_profile_api M usr emp s = (Inr PermissionDenied, s)"
  using assms by (auto simp: view_profile_api_def)

lemma view_denied_no_own_record:
  assumes "role usr = ''MANAGER'' \<or> role usr = ''EMPLOYEE''"
    and "filter (\<lambda>e. e_user e = u_id usr) (employees s) = []"
  shows "view_profile_api M usr emp s
           = (Inr PermissionDenied, s\<lparr>trace := trace s @ [Read EmployeeE]\<rparr>)"
  using assms by (auto simp: view_profile_api_def Employee_get_def touch_def)

lemma view_denied_target:
  assumes "filter (\<lambda>e. e_user e = u_id usr) (employees s) = [me]"
    and "eid \<noteq> []"
    and "filter (\<lambda>e. employee_id e = eid) (employees s) = [t]"
    and "role usr = ''MANAGER'' \<and> department_id t \<noteq> department_id me
         \<or> role usr = ''EMPLOYEE'' \<and> e_user t \<noteq> u_id usr"
  shows "view_profile_api M usr (Some eid) s
           = (Inr PermissionDenied, s\<lparr>trace := trace s @ [Read EmployeeE, Read EmployeeE]\<rparr>)"
  using assms by (auto simp: view_profile_api_def Employee_get_def touch_def)

lemma view_denied_other_role:
  assumes "role usr \<notin> {''ADMIN'', ''HR'', ''MANAGER'', ''EMPLOYEE''}"
    and "eid \<noteq> []"
    and "filter (\<lambda>e. employee_id e = eid) (employees s) = [t]"
  shows "view_profile_api M usr (Some eid) s
           = (Inr PermissionDenied, s\<lparr>trace := trace s @ [Read EmployeeE]\<rparr>)"
  using assms by (auto simp: view_profile_api_def Employee_get_def touch_def)

lemma view_denied_only:
  assumes den: "fst (view_profile_api M usr emp s) = Inr PermissionDenied"
  shows "(role usr \<noteq> ''MANAGER'' \<and> role usr \<noteq> ''EMPLOYEE'' \<and> (emp = None \<or> emp = Some []))
       \<or> ((role usr = ''MANAGER'' \<or> role usr = ''EMPLOYEE'')
            \<and> filter (\<lambda>e. e_user e = u_id usr) (employees s) = [])
       \<or> (\<exists>me eid t. filter (\<lambda>e. e_user e = u_id usr) (employees s) = [me]
            \<and> emp = Some eid \<and> eid \<noteq> []
            \<and> filter (\<lambda>e. employee_id e = eid) (employees s) = [t]
            \<and> (role usr = ''MANAGER'' \<and> department_id t \<noteq> department_id me
                \<or> role usr = ''EMPLOYEE'' \<and> e_user t \<noteq> u_id usr))
       \<or> (\<exists>eid t. role usr \<notin> {''ADMIN'', ''HR'', ''MANAGER'', ''EMPLOYEE''}
            \<and> emp = Some eid \<and> eid \<noteq> []
            \<and> filter (\<lambda>e. employee_id e = eid) (employees s) = [t])"
proof -
  define eid where "eid = (case emp of None \<Rightarrow> [] | Some x \<Rightarrow> x)"
  define own where "own = filter (\<lambda>e. e_user e = u_id usr) (employees s)"
  define tgt where "tgt = filter (\<lambda>e. employee_id e = eid) (employees s)"
  have emp: "emp = Some eid" if "eid \<noteq> []"
    using that by (cases emp) (simp_all add: eid_def)
  have noemp: "emp = None \<or> emp = Some []" if "eid = []"
    using that by (cases emp) (simp_all add: eid_def)
  note defs = view_profile_api_def Employee_get_def touch_def Let_def profile_stage_not_denied
  show ?thesis
  proof (cases "role usr = ''MANAGER'' \<or> role usr = ''EMPLOYEE''")
    case staff: True
    show ?thesis
    proof (cases own rule: get_row.cases)
      case 1
      with staff show ?thesis by (simp add: own_def)
    next
      case (3 x y zs)
      with staff den show ?thesis by (auto simp: defs own_def)
    next
      case (2 me)
      show ?thesis
      proof (cases "eid = []")
        case True
        with staff 2 den show ?thesis
          by (auto simp: defs own_def eid_def)
      next
        case given: False
        show ?thesis
        proof (cases tgt rule: get_row.cases)
          case 1
          with staff 2 given den show ?thesis by (auto simp: defs own_def eid_def tgt_def)
        next
          case (3 x y zs)
          with staff \<open>own = [me]\<close> given den show ?thesis
            by (auto simp: defs own_def eid_def tgt_def)
        next
          case t: (2 t)
          from staff \<open>own = [me]\<close> given den t
          have "role usr = ''MANAGER'' \<and> department_id t \<noteq> department_id me
                \<or> role usr = ''EMPLOYEE'' \<and> e_user t \<noteq> u_id usr"
            by (auto simp: defs own_def eid_def tgt_def split: if_splits)
          with \<open>own = [me]\<close> t emp [OF given] given show ?thesis
            unfolding own_def tgt_def by blast
        qed
      qed
    qed
  next
    case other: False
    show ?thesis
    proof (cases "eid = []")
      case True
      with other noemp show ?thesis by blast
    next
      case given: False
      show ?thesis
      proof (cases tgt rule: get_row.cases)
        case 1
        with other given den show ?thesis by (auto simp: defs eid_def tgt_def)
      next
        case (3 x y zs)
        with other given den show ?thesis by (auto simp: defs eid_def tgt_def)
      next
        case t: (2 t)
        from other given den t
        have "role usr \<notin> {''ADMIN'', ''HR'', ''MANAGER'', ''EMPLOYEE''}"
          by (auto simp: defs eid_def tgt_def split: if_splits)
        with t emp [OF given] given show ?thesis
          unfolding tgt_def by blast
      qed
    qed
  qed
qed

subsection \<open>Profile views\<close>

text \<open>
  C1: an actor whose role is MANAGER or EMPLOYEE and who owns no Employee record is
  answered with Permission denied by \<open>view_profile_api\<close>, whatever target is asked for.
\<close>

theorem view_profile_no_own_record_denied:
  assumes "role usr = ''MANAGER'' \<or> role usr = ''EMPLOYEE''"
    and "\<forall>e \<in> set (employees s). e_user e \<noteq> u_id usr"
  shows "fst (view_profile_api M usr emp s) = Inr PermissionDenied"
proof -
  from assms(2) have "filter (\<lambda>e. e_user e = u_id usr) (employees s) = []"
    by (intro filter_none) simp
  with assms(1) show ?thesis
    by (auto simp: view_profile_api_def Employee_get_def)
qed

theorem view_profile_no_own_record_denied_witness:
  "(role manager_n = ''MANAGER'' \<or> role manager_n = ''EMPLOYEE'')
   \<and> u_id manager_n \<notin> set (map e_user (employees db1))
   \<and> fst (view_profile_api open_schema manager_n (Some ''E3'') db1) = Inr PermissionDenied"
proof -
  have h1: "role manager_n = ''MANAGER'' \<or> role manager_n = ''EMPLOYEE''"
    by (simp add: manager_n_def mk_user_def)
  have h2: "\<forall>e \<in> set (employees db1). e_user e \<noteq> u_id manager_n"
    by (simp add: db1_def manager_n_def mk_user_def mk_employee_def)
  have h3: "u_id manager_n \<notin> set (map e_user (employees db1))"
    using h2 by auto
  from view_profile_no_own_record_denied [OF h1 h2] h1 h3 show ?thesis by blast
qed

text \<open>
  C2: a MANAGER with an own Employee record who asks for the profile of an existing
  employee by its id is denied when the departments of the two records differ, and is
  let through when they are equal: the answer is then never Permission denied, it is the
  target with its profile when the store holds that profile, and the target with a new
  profile when the store holds none and accepts the new row.
\<close>

theorem manager_view_by_department:
  assumes mgr: "role usr = ''MANAGER''"
    and own: "filter (\<lambda>e. e_user e = u_id usr) (employees s) = [me]"
    and given: "emp_id \<noteq> []"
    and tgt: "filter (\<lambda>e. employee_id e = emp_id) (employees s) = [target]"
  shows "(department_id target \<noteq> department_id me \<longrightarrow>
            fst (view_profile_api M usr (Some emp_id) s) = Inr PermissionDenied)
       \<and> (department_id target = department_id me \<longrightarrow>
            fst (view_profile_api M usr (Some emp_id) s) \<noteq> Inr PermissionDenied
          \<and> (\<forall>p. filter (\<lambda>p. p_employee p = e_user target) (profiles s) = [p] \<longrightarrow>
                fst (view_profile_api M usr (Some emp_id) s)
                  = Inr (Response (EmployeeProfile target p) HTTP_200_OK))
          \<and> (filter (\<lambda>p. p_employee p = e_user target) (profiles s) = []
               \<and> profile_ok M (profiles s)
                    \<lparr>p_id = Suc (profile_seq s), p_employee = e_user target,
                     p_fields = [], verified = False\<rparr> \<longrightarrow>
                fst (view_profile_api M usr (Some emp_id) s)
                  = Inr (Response (EmployeeProfile target
                      \<lparr>p_id = Suc (profile_seq s), p_employee = e_user target,
                       p_fields = [], verified = False\<rparr>) HTTP_200_OK)))"
  using mgr own given tgt
  by (auto simp: view_profile_api_def Employee_get_def touch_def Profile_get_or_create_def
        Profile_get_def Profile_create_def Let_def PermissionDenied_def HTTP_403_FORBIDDEN_def HTTP_200_OK_def
      split: lookup.splits prod.splits sum.splits list.splits)

theorem manager_view_by_department_witness:
  "role manager_m = ''MANAGER''
   \<and> filter (\<lambda>e. e_user e = u_id manager_m) (employees db1) = [mk_employee 1 ''E1'' 2 1]
   \<and> filter (\<lambda>e. employee_id e = ''E2'') (employees db1) = [mk_employee 2 ''E2'' 3 1]
   \<and> filter (\<lambda>e. employee_id e = ''E3'') (employees db1) = [mk_employee 3 ''E3'' 4 2]
   \<and> fst (view_profile_api open_schema manager_m (Some ''E2'') db1)
       = Inr (Response (EmployeeProfile (mk_employee 2 ''E2'' 3 1)
                \<lparr>p_id = 2, p_employee = 3, p_fields = [], verified = True\<rparr>) HTTP_200_OK)
   \<and> fst (view_profile_api open_schema manager_m (Some ''E3'') db1) = Inr PermissionDenied"
proof -
  have mgr: "role manager_m = ''MANAGER''"
    by (simp add: manager_m_def mk_user_def)
  have own: "filter (\<lambda>e. e_user e = u_id manager_m) (employees db1) = [mk_employee 1 ''E1'' 2 1]"
    by (simp add: db1_def manager_m_def mk_user_def mk_employee_def)
  have t2: "filter (\<lambda>e. employee_id e = ''E2'') (employees db1) = [mk_employee 2 ''E2'' 3 1]"
    by (simp add: db1_def mk_employee_def)
  have t3: "filter (\<lambda>e. employee_id e = ''E3'') (employees db1) = [mk_employee 3 ''E3'' 4 2]"
    by (simp add: db1_def mk_employee_def)
  have p2: "filter (\<lambda>p. p_employee p = e_user (mk_employee 2 ''E2'' 3 1)) (profiles db1)
              = [\<lparr>p_id = 2, p_employee = 3, p_fields = [], verified = True\<rparr>]"
    by (simp add: db1_def mk_employee_def)
  have same: "department_id (mk_employee 2 ''E2'' 3 1) = department_id (mk_employee 1 ''E1'' 2 1)"
    by (simp add: mk_employee_def)
  have diff: "department_id (mk_employee 3 ''E3'' 4 2) \<noteq> department_id (mk_employee 1 ''E1'' 2 1)"
    by (simp add: mk_employee_def)
  have allow: "fst (view_profile_api open_schema manager_m (Some ''E2'') db1)
       = Inr (Response (EmployeeProfile (mk_employee 2 ''E2'' 3 1)
                \<lparr>p_id = 2, p_employee = 3, p_fields = [], verified = True\<rparr>) HTTP_200_OK)"
    using manager_view_by_department [OF mgr own _ t2, of open_schema] same p2 by simp
  have deny: "fst (view_profile_api open_schema manager_m (Some ''E3'') db1) = Inr PermissionDenied"
    using manager_view_by_department [OF mgr own _ t3, of open_schema] diff by simp
  from mgr own t2 t3 allow deny show ?thesis by simp
qed

subsection \<open>Profile verification\<close>

text \<open>
  C3: a successful self-edit (PUT on \<open>employee_profile_api\<close>, answered with status
  200) leaves the edited profile unverified, whatever its state before and whatever the
  payload: the answer carries the saved profile with \<open>verified\<close> false, that row is in
  the store, and no row of the store with the profile's primary key is verified. The
  serializer is any that validates the payload and does not change the primary key.
\<close>

theorem self_edit_resets_verified:
  assumes prof: "fst (Profile_get_or_create M (u_id usr) s) = Inr p0"
    and valid: "profile_serializer S data p0 = Inr p1"
    and key: "p_id p1 = p_id p0"
    and success: "fst (employee_profile_api M S usr PUT data s) = Inr (Response b HTTP_200_OK)"
  shows "b = ProfileData (p1\<lparr>verified := False\<rparr>) None
       \<and> p1\<lparr>verified := False\<rparr> \<in> set (profiles (snd (employee_profile_api M S usr PUT data s)))
       \<and> (\<forall>q \<in> set (profiles (snd (employee_profile_api M S usr PUT data s))).
            p_id q = p_id p0 \<longrightarrow> verified q = False)"
proof -
  obtain s1 where s1: "Profile_get_or_create M (u_id usr) s = (Inr p0, s1)"
    using prof by (cases "Profile_get_or_create M (u_id usr) s") simp
  let ?p = "p1\<lparr>verified := False\<rparr>"
  from success s1 valid
  have ok1: "profile_ok M (filter (\<lambda>q. p_id q \<noteq> p_id p1) (profiles s1)) p1"
    by (auto simp: employee_profile_api_def Profile_save_def HTTP_200_OK_def HTTP_400_BAD_REQUEST_def
          split: if_splits)
  define s2 where "s2 = touch (Write ProfileE) (s1\<lparr>profiles := upsert p_id p1 (profiles s1)\<rparr>)"
  from ok1 have save1: "Profile_save M p1 s1 = (Inr (), s2)"
    by (simp add: Profile_save_def s2_def)
  from success s1 valid save1
  have ok2: "profile_ok M (filter (\<lambda>q. p_id q \<noteq> p_id ?p) (profiles s2)) ?p"
    by (auto simp: employee_profile_api_def Profile_save_def Let_def split: if_splits)
  define s3 where "s3 = touch (Write ProfileE) (s2\<lparr>profiles := upsert p_id ?p (profiles s2)\<rparr>)"
  from ok2 have save2: "Profile_save M ?p s2 = (Inr (), s3)"
    by (simp add: Profile_save_def s3_def)
  have res: "employee_profile_api M S usr PUT data s
               = (Inr (Response (ProfileData ?p None) HTTP_200_OK), s3)"
    using s1 valid save1 save2 by (simp add: employee_profile_api_def Let_def)
  have rows: "profiles s3 = upsert p_id ?p (profiles s2)"
    by (simp add: s3_def touch_def)
  from upsert_same_key [of p_id ?p "profiles s2"]
  have mem: "?p \<in> set (profiles s3)" and all: "\<forall>q \<in> set (profiles s3). p_id q = p_id ?p \<longrightarrow> q = ?p"
    unfolding rows by (auto simp: filter_empty_conv)
  from res success have "b = ProfileData ?p None" by simp
  moreover from all key have "\<forall>q \<in> set (profiles s3). p_id q = p_id p0 \<longrightarrow> verified q = False"
    by auto
  ultimately show ?thesis using mem res by simp
qed

theorem self_edit_resets_verified_witness:
  "fst (Profile_get_or_create open_schema (u_id employee_e) db1)
     = Inr \<lparr>p_id = 2, p_employee = 3, p_fields = [], verified = True\<rparr>
   \<and> profile_serializer plain_serializers Map.empty
        \<lparr>p_id = 2, p_employee = 3, p_fields = [], verified = True\<rparr>
     = Inr \<lparr>p_id = 2, p_employee = 3, p_fields = [], verified = True\<rparr>
   \<and> fst (employee_profile_api open_schema plain_serializers employee_e PUT Map.empty db1)
     = Inr (Response (ProfileData \<lparr>p_id = 2, p_employee = 3, p_fields = [], verified = False\<rparr>
              None) HTTP_200_OK)
   \<and> \<lparr>p_id = 2, p_employee = 3, p_fields = [], verified = False\<rparr>
       \<in> set (profiles (snd (employee_profile_api open_schema plain_serializers
                               employee_e PUT Map.empty db1)))"
proof -
  let ?p = "\<lparr>p_id = 2, p_employee = 3, p_fields = [], verified = True\<rparr>"
  have prof: "fst (Profile_get_or_create open_schema (u_id employee_e) db1) = Inr ?p"
    by (simp add: Profile_get_or_create_def Profile_get_def db1_def employee_e_def mk_user_def)
  have valid: "profile_serializer plain_serializers Map.empty ?p = Inr ?p"
    by (simp add: plain_serializers_def)
  have success: "fst (employee_profile_api open_schema plain_serializers employee_e PUT Map.empty db1)
     = Inr (Response (ProfileData \<lparr>p_id = 2, p_employee = 3, p_fields = [], verified = False\<rparr>
              None) HTTP_200_OK)"
    by (simp add: employee_profile_api_def Profile_get_or_create_def Profile_get_def
          Profile_save_def touch_def upsert_def db1_def employee_e_def mk_user_def
          plain_serializers_def open_schema_def Let_def)
  from self_edit_resets_verified [OF prof valid _ success] prof valid success
  show ?thesis by simp
qed

text \<open>
  C4: approval by an ADMIN or HR actor of an existing profile, in a store that accepts
  the approved row, succeeds and leaves the profile verified; on a profile that is
  verified already it changes nothing in the store but the trace of the calls; and a
  second approval succeeds again and leaves the store as the first one did.
\<close>

theorem approve_idempotent:
  assumes admin: "role usr = ''ADMIN'' \<or> role usr = ''HR''"
    and ex: "filter (\<lambda>q. p_id q = pid) (profiles s) = [p]"
    and ok: "profile_ok M (filter (\<lambda>q. p_id q \<noteq> pid) (profiles s)) (p\<lparr>verified := True\<rparr>)"
  shows "fst (approve_profile_api M usr pid s)
           = Inr (Response (Message ''Profile approved successfully'') HTTP_200_OK)
       \<and> filter (\<lambda>q. p_id q = pid) (profiles (snd (approve_profile_api M usr pid s)))
           = [p\<lparr>verified := True\<rparr>]
       \<and> (verified p \<longrightarrow>
            snd (approve_profile_api M usr pid s)
              = s\<lparr>trace := trace s @ [Read ProfileE, Write ProfileE]\<rparr>)
       \<and> fst (approve_profile_api M usr pid (snd (approve_profile_api M usr pid s)))
           = Inr (Response (Message ''Profile approved successfully'') HTTP_200_OK)
       \<and> snd (approve_profile_api M usr pid (snd (approve_profile_api M usr pid s)))
           = (snd (approve_profile_api M usr pid s))
               \<lparr>trace := trace (snd (approve_profile_api M usr pid s))
                           @ [Read ProfileE, Write ProfileE]\<rparr>"
proof -
  let ?v = "p\<lparr>verified := True\<rparr>"
  let ?ok = "Inr (Response (Message ''Profile approved successfully'') HTTP_200_OK)"
  have once: "approve_profile_api M usr pid t
                = (?ok, t\<lparr>profiles := upsert p_id (r\<lparr>verified := True\<rparr>) (profiles t),
                         trace := trace t @ [Read ProfileE, Write ProfileE]\<rparr>)"
    if "filter (\<lambda>q. p_id q = pid) (profiles t) = [r]"
      and "profile_ok M (filter (\<lambda>q. p_id q \<noteq> pid) (profiles t)) (r\<lparr>verified := True\<rparr>)"
    for t r
  proof -
    from filter_single_mem [OF that(1)] have "p_id r = pid" by simp
    with that admin show ?thesis
      by (auto simp: approve_profile_api_def Profile_get_def Profile_save_def touch_def)
  qed
  have pk: "p_id ?v = pid" using filter_single_mem [OF ex] by simp
  from ex pk have ex': "filter (\<lambda>q. p_id q = p_id ?v) (profiles s) = [p]" by simp
  let ?s1 = "snd (approve_profile_api M usr pid s)"
  note r1 = once [OF ex ok]
  then have rows1: "profiles ?s1 = upsert p_id ?v (profiles s)" by simp
  from upsert_single [OF ex'] rows1 pk
  have ex1: "filter (\<lambda>q. p_id q = pid) (profiles ?s1) = [?v]" by simp
  from upsert_other_keys [of p_id ?v "profiles s"] rows1 pk
  have others: "filter (\<lambda>q. p_id q \<noteq> pid) (profiles ?s1) = filter (\<lambda>q. p_id q \<noteq> pid) (profiles s)"
    by simp
  have noop: "?s1 = s\<lparr>trace := trace s @ [Read ProfileE, Write ProfileE]\<rparr>" if "verified p"
  proof -
    from that have "?v = p" by simp
    with ex' have "upsert p_id ?v (profiles s) = profiles s"
      using upsert_noop [of p_id p "profiles s"] by simp
    with r1 show ?thesis by simp
  qed
  from ok others have ok1: "profile_ok M (filter (\<lambda>q. p_id q \<noteq> pid) (profiles ?s1)) (?v\<lparr>verified := True\<rparr>)"
    by simp
  note r2 = once [OF ex1 ok1]
  from ex1 pk have "filter (\<lambda>q. p_id q = p_id ?v) (profiles ?s1) = [?v]" by simp
  from upsert_noop [OF this] have same: "upsert p_id ?v (profiles ?s1) = profiles ?s1" .
  have twice: "snd (approve_profile_api M usr pid ?s1)
                 = ?s1\<lparr>trace := trace ?s1 @ [Read ProfileE, Write ProfileE]\<rparr>"
    using r2 same by simp
  from r1 have first: "fst (approve_profile_api M usr pid s) = ?ok" by simp
  from r2 have second: "fst (approve_profile_api M usr pid ?s1) = ?ok" by simp
  from first ex1 noop second twice show ?thesis by blast
qed

theorem approve_idempotent_witness:
  "(role admin_a = ''ADMIN'' \<or> role admin_a = ''HR'')
   \<and> filter (\<lambda>q. p_id q = 2) (profiles db1)
       = [\<lparr>p_id = 2, p_employee = 3, p_fields = [], verified = True\<rparr>]
   \<and> profile_ok open_schema (filter (\<lambda>q. p_id q \<noteq> 2) (profiles db1))
        (\<lparr>p_id = 2, p_employee = 3, p_fields = [], verified = True\<rparr>\<lparr>verified := True\<rparr>)
   \<and> fst (approve_profile_api open_schema admin_a 2 db1)
       = Inr (Response (Message ''Profile approved successfully'') HTTP_200_OK)
   \<and> snd (approve_profile_api open_schema admin_a 2 db1)
       = db1\<lparr>trace := [Read ProfileE, Write ProfileE]\<rparr>
   \<and> snd (approve_profile_api open_schema admin_a 2
            (snd (approve_profile_api open_schema admin_a 2 db1)))
       = db1\<lparr>trace := [Read ProfileE, Write ProfileE, Read ProfileE, Write ProfileE]\<rparr>"
proof -
  let ?p = "\<lparr>p_id = 2, p_employee = 3, p_fields = [], verified = True\<rparr>"
  have admin: "role admin_a = ''ADMIN'' \<or> role admin_a = ''HR''"
    by (simp add: admin_a_def mk_user_def)
  have ex: "filter (\<lambda>q. p_id q = 2) (profiles db1) = [?p]"
    by (simp add: db1_def)
  have ok: "profile_ok open_schema (filter (\<lambda>q. p_id q \<noteq> 2) (profiles db1)) (?p\<lparr>verified := True\<rparr>)"
    by (simp add: open_schema_def)
  have t0: "trace db1 = []" by (simp add: db1_def)
  note approved = approve_idempotent [OF admin ex ok]
  from approved have first: "fst (approve_profile_api open_schema admin_a 2 db1)
       = Inr (Response (Message ''Profile approved successfully'') HTTP_200_OK)"
    by blast
  from approved t0 have once: "snd (approve_profile_api open_schema admin_a 2 db1)
       = db1\<lparr>trace := [Read ProfileE, Write ProfileE]\<rparr>"
    by simp
  from approved have twice: "snd (approve_profile_api open_schema admin_a 2
            (snd (approve_profile_api open_schema admin_a 2 db1)))
       = (snd (approve_profile_api open_schema admin_a 2 db1))
           \<lparr>trace := trace (snd (approve_profile_api open_schema admin_a 2 db1))
                       @ [Read ProfileE, Write ProfileE]\<rparr>"
    by blast
  have again: "snd (approve_profile_api open_schema admin_a 2
            (snd (approve_profile_api open_schema admin_a 2 db1)))
       = db1\<lparr>trace := [Read ProfileE, Write ProfileE, Read ProfileE, Write ProfileE]\<rparr>"
    unfolding twice by (simp add: once)
  from admin ex ok first once again show ?thesis by blast
qed

text \<open>
  C5: for an ADMIN or HR actor the pending-profiles query answers with exactly the
  profiles that are unverified and whose owning user has the role EMPLOYEE; no profile
  owned by a MANAGER, HR or ADMIN user is in the answer.
\<close>

theorem pending_profiles_exact:
  assumes "role usr = ''ADMIN'' \<or> role usr = ''HR''"
  shows "\<exists>ps. fst (pending_profiles_api usr s) = Inr (Response (ProfileList ps) HTTP_200_OK)
            \<and> set ps = {p \<in> set (profiles s). verified p = False
                           \<and> map_option role (user_of s (p_employee p)) = Some ''EMPLOYEE''}
            \<and> (\<forall>p \<in> set ps. \<forall>u. user_of s (p_employee p) = Some u \<longrightarrow>
                  role u \<noteq> ''MANAGER'' \<and> role u \<noteq> ''HR'' \<and> role u \<noteq> ''ADMIN'')"
  using assms
  by (auto simp: pending_profiles_api_def split: option.splits)

theorem pending_profiles_exact_witness:
  "(role admin_a = ''ADMIN'' \<or> role admin_a = ''HR'')
   \<and> fst (pending_profiles_api admin_a db1)
       = Inr (Response (ProfileList [\<lparr>p_id = 3, p_employee = 4, p_fields = [], verified = False\<rparr>])
               HTTP_200_OK)
   \<and> {p \<in> set (profiles db1). verified p = False
          \<and> map_option role (user_of db1 (p_employee p)) = Some ''EMPLOYEE''}
       = {\<lparr>p_id = 3, p_employee = 4, p_fields = [], verified = False\<rparr>}"
proof -
  have admin: "role admin_a = ''ADMIN'' \<or> role admin_a = ''HR''"
    by (simp add: admin_a_def mk_user_def)
  have res: "fst (pending_profiles_api admin_a db1)
       = Inr (Response (ProfileList [\<lparr>p_id = 3, p_employee = 4, p_fields = [], verified = False\<rparr>])
               HTTP_200_OK)"
    by (simp add: pending_profiles_api_def user_of_def db1_def admin_a_def manager_m_def
          employee_e_def employee_f_def manager_n_def mk_user_def)
  from pending_profiles_exact [OF admin, of db1] res admin show ?thesis by auto
qed

subsection \<open>Order of policy check and store access\<close>

text \<open>
  C6, as stated, fails: Max (MANAGER, department 1) asks for the profile of Fay
  (department 2). The request is denied, and before the denial the handler has read the
  Employee table twice, for Max's own record and for the target's.
\<close>

theorem denied_view_reads_store_counterexample:
  "fst (view_profile_api open_schema manager_m (Some ''E3'') db1) = Inr PermissionDenied
   \<and> trace db1 = []
   \<and> trace (snd (view_profile_api open_schema manager_m (Some ''E3'') db1))
       = [Read EmployeeE, Read EmployeeE]"
  by (simp add: view_profile_api_def Employee_get_def touch_def db1_def manager_m_def
        mk_user_def mk_employee_def PermissionDenied_def)

text \<open>
  C6, amended: a denied request never writes to the store. The handlers that are gated
  on the role alone (employee list, onboarding, employee detail, department manager,
  pending profiles, approval) deny every actor who is neither ADMIN nor HR, before any
  call to the store, and deny no ADMIN or HR actor; the department and designation
  lists and the own-profile handler never deny. \<open>view_profile_api\<close> denies in four
  cases and in no other: without any call to the store, an actor who is neither MANAGER
  nor EMPLOYEE and gives no target id; after one read of the Employee table (the own
  record), a MANAGER or EMPLOYEE who has no Employee record; after two reads (the own
  record, then the target), a MANAGER whose target is in another department and an
  EMPLOYEE whose target is someone else; after one read (the target), an actor of none
  of the four roles who gives a target id. In each case the store is left as it was,
  but for the trace of these reads.
\<close>

theorem denied_requests_leave_store:
  "(role usr \<notin> {''ADMIN'', ''HR''} \<longrightarrow>
      employee_list_api usr s = (Inr PermissionDenied, s)
    \<and> create_employee_api M S usr data s = (Inr PermissionDenied, s)
    \<and> (meth \<noteq> POST \<longrightarrow> employee_detail_api M usr meth pk data s = (Inr PermissionDenied, s))
    \<and> update_department_manager_api M usr dep man s = (Inr PermissionDenied, s)
    \<and> pending_profiles_api usr s = (Inr PermissionDenied, s)
    \<and> approve_profile_api M usr pid s = (Inr PermissionDenied, s))
 \<and> (role usr \<in> {''ADMIN'', ''HR''} \<longrightarrow>
      fst (employee_list_api usr s) \<noteq> Inr PermissionDenied
    \<and> fst (create_employee_api M S usr data s) \<noteq> Inr PermissionDenied
    \<and> fst (employee_detail_api M usr meth pk data s) \<noteq> Inr PermissionDenied
    \<and> fst (update_department_manager_api M usr dep man s) \<noteq> Inr PermissionDenied
    \<and> fst (pending_profiles_api usr s) \<noteq> Inr PermissionDenied
    \<and> fst (approve_profile_api M usr pid s) \<noteq> Inr PermissionDenied)
 \<and> fst (employee_detail_api M usr POST pk data s) \<noteq> Inr PermissionDenied
 \<and> fst (departments_api usr s) \<noteq> Inr PermissionDenied
 \<and> fst (designations_api usr s) \<noteq> Inr PermissionDenied
 \<and> fst (employee_profile_api M S usr meth data s) \<noteq> Inr PermissionDenied
 \<and> (role usr \<noteq> ''MANAGER'' \<and> role usr \<noteq> ''EMPLOYEE'' \<and> (emp = None \<or> emp = Some []) \<longrightarrow>
      view_profile_api M usr emp s = (Inr PermissionDenied, s))
 \<and> ((role usr = ''MANAGER'' \<or> role usr = ''EMPLOYEE'')
      \<and> filter (\<lambda>e. e_user e = u_id usr) (employees s) = [] \<longrightarrow>
      view_profile_api M usr emp s
        = (Inr PermissionDenied, s\<lparr>trace := trace s @ [Read EmployeeE]\<rparr>))
 \<and> (\<forall>me eid t. filter (\<lambda>e. e_user e = u_id usr) (employees s) = [me]
      \<and> emp = Some eid \<and> eid \<noteq> []
      \<and> filter (\<lambda>e. employee_id e = eid) (employees s) = [t]
      \<and> (role usr = ''MANAGER'' \<and> department_id t \<noteq> department_id me
          \<or> role usr = ''EMPLOYEE'' \<and> e_user t \<noteq> u_id usr) \<longrightarrow>
      view_profile_api M usr emp s
        = (Inr PermissionDenied, s\<lparr>trace := trace s @ [Read EmployeeE, Read EmployeeE]\<rparr>))
 \<and> (\<forall>eid t. role usr \<notin> {''ADMIN'', ''HR'', ''MANAGER'', ''EMPLOYEE''}
      \<and> emp = Some eid \<and> eid \<noteq> []
      \<and> filter (\<lambda>e. employee_id e = eid) (employees s) = [t] \<longrightarrow>
      view_profile_api M usr emp s
        = (Inr PermissionDenied, s\<lparr>trace := trace s @ [Read EmployeeE]\<rparr>))
 \<and> (fst (view_profile_api M usr emp s) = Inr PermissionDenied \<longrightarrow>
      (role usr \<noteq> ''MANAGER'' \<and> role usr \<noteq> ''EMPLOYEE'' \<and> (emp = None \<or> emp = Some []))
    \<or> ((role usr = ''MANAGER'' \<or> role usr = ''EMPLOYEE'')
         \<and> filter (\<lambda>e. e_user e = u_id usr) (employees s) = [])
    \<or> (\<exists>me eid t. filter (\<lambda>e. e_user e = u_id usr) (employees s) = [me]
         \<and> emp = Some eid \<and> eid \<noteq> []
         \<and> filter (\<lambda>e. employee_id e = eid) (employees s) = [t]
         \<and> (role usr = ''MANAGER'' \<and> department_id t \<noteq> department_id me
             \<or> role usr = ''EMPLOYEE'' \<and> e_user t \<noteq> u_id usr))
    \<or> (\<exists>eid t. role usr \<notin> {''ADMIN'', ''HR'', ''MANAGER'', ''EMPLOYEE''}
         \<and> emp = Some eid \<and> eid \<noteq> []
         \<and> filter (\<lambda>e. employee_id e = eid) (employees s) = [t]))"
proof -
  have gate: "role usr \<notin> {''ADMIN'', ''HR''} \<longrightarrow>
      employee_list_api usr s = (Inr PermissionDenied, s)
    \<and> create_employee_api M S usr data s = (Inr PermissionDenied, s)
    \<and> (meth \<noteq> POST \<longrightarrow> employee_detail_api M usr meth pk data s = (Inr PermissionDenied, s))
    \<and> update_department_manager_api M usr dep man s = (Inr PermissionDenied, s)
    \<and> pending_profiles_api usr s = (Inr PermissionDenied, s)
    \<and> approve_profile_api M usr pid s = (Inr PermissionDenied, s)"
    using role_gate_denies [of usr] by blast
  have admit: "role usr \<in> {''ADMIN'', ''HR''} \<longrightarrow>
      fst (employee_list_api usr s) \<noteq> Inr PermissionDenied
    \<and> fst (create_employee_api M S usr data s) \<noteq> Inr PermissionDenied
    \<and> fst (employee_detail_api M usr meth pk data s) \<noteq> Inr PermissionDenied
    \<and> fst (update_department_manager_api M usr dep man s) \<noteq> Inr PermissionDenied
    \<and> fst (pending_profiles_api usr s) \<noteq> Inr PermissionDenied
    \<and> fst (approve_profile_api M usr pid s) \<noteq> Inr PermissionDenied"
    using role_gate_admits [of usr] by blast
  have never: "fst (departments_api usr s) \<noteq> Inr PermissionDenied"
    "fst (designations_api usr s) \<noteq> Inr PermissionDenied"
    "fst (employee_profile_api M S usr meth data s) \<noteq> Inr PermissionDenied"
    by (auto simp: departments_api_def designations_api_def employee_profile_api_def http_defs
          Let_def split: sum.splits prod.splits lookup.splits)
  have v1: "role usr \<noteq> ''MANAGER'' \<and> role usr \<noteq> ''EMPLOYEE'' \<and> (emp = None \<or> emp = Some []) \<longrightarrow>
      view_profile_api M usr emp s = (Inr PermissionDenied, s)"
    using view_denied_no_target [of usr emp M s] by blast
  have v2: "(role usr = ''MANAGER'' \<or> role usr = ''EMPLOYEE'')
      \<and> filter (\<lambda>e. e_user e = u_id usr) (employees s) = [] \<longrightarrow>
      view_profile_api M usr emp s
        = (Inr PermissionDenied, s\<lparr>trace := trace s @ [Read EmployeeE]\<rparr>)"
    using view_denied_no_own_record [of usr s M emp] by blast
  have v3: "\<forall>me eid t. filter (\<lambda>e. e_user e = u_id usr) (employees s) = [me]
      \<and> emp = Some eid \<and> eid \<noteq> []
      \<and> filter (\<lambda>e. employee_id e = eid) (employees s) = [t]
      \<and> (role usr = ''MANAGER'' \<and> department_id t \<noteq> department_id me
          \<or> role usr = ''EMPLOYEE'' \<and> e_user t \<noteq> u_id usr) \<longrightarrow>
      view_profile_api M usr emp s
        = (Inr PermissionDenied, s\<lparr>trace := trace s @ [Read EmployeeE, Read EmployeeE]\<rparr>)"
    using view_denied_target [of usr s _ _ _ M] by blast
  have v4: "\<forall>eid t. role usr \<notin> {''ADMIN'', ''HR'', ''MANAGER'', ''EMPLOYEE''}
      \<and> emp = Some eid \<and> eid \<noteq> []
      \<and> filter (\<lambda>e. employee_id e = eid) (employees s) = [t] \<longrightarrow>
      view_profile_api M usr emp s
        = (Inr PermissionDenied, s\<lparr>trace := trace s @ [Read EmployeeE]\<rparr>)"
    using view_denied_other_role [of usr _ s _ M] by blast
  note v5 = impI [OF view_denied_only [of M usr emp s]]
  from gate admit detail_post_not_denied [of M usr pk data s] never v1 v2 v3 v4 v5
  show ?thesis by (intro conjI) assumption+
qed

theorem denied_requests_leave_store_witness:
  "role manager_m = ''MANAGER''
   \<and> employee_list_api manager_m db1 = (Inr PermissionDenied, db1)
   \<and> create_employee_api open_schema plain_serializers manager_m (onboard_payload 5000) db1
       = (Inr PermissionDenied, db1)
   \<and> employee_detail_api open_schema manager_m DELETE 2 (onboard_payload 5000) db1
       = (Inr PermissionDenied, db1)
   \<and> update_department_manager_api open_schema manager_m (Some 2) (Some 1) db1
       = (Inr PermissionDenied, db1)
   \<and> pending_profiles_api manager_m db1 = (Inr PermissionDenied, db1)
   \<and> approve_profile_api open_schema manager_m 1 db1 = (Inr PermissionDenied, db1)
   \<and> view_profile_api open_schema manager_m (Some ''E3'') db1
       = (Inr PermissionDenied, db1\<lparr>trace := [Read EmployeeE, Read EmployeeE]\<rparr>)
   \<and> view_profile_api open_schema employee_e (Some ''E1'') db1
       = (Inr PermissionDenied, db1\<lparr>trace := [Read EmployeeE, Read EmployeeE]\<rparr>)
   \<and> view_profile_api open_schema manager_n (Some ''E3'') db1
       = (Inr PermissionDenied, db1\<lparr>trace := [Read EmployeeE]\<rparr>)
   \<and> view_profile_api open_schema admin_a None db1 = (Inr PermissionDenied, db1)
   \<and> fst (approve_profile_api open_schema admin_a 1 db1) \<noteq> Inr PermissionDenied"
proof -
  note users = admin_a_def manager_m_def manager_n_def employee_e_def mk_user_def
  have t0: "trace db1 = []" by (simp add: db1_def)
  have rm: "role manager_m = ''MANAGER''" by (simp add: users)
  have gm: "role manager_m \<notin> {''ADMIN'', ''HR''}" by (simp add: users)
  have own_m: "filter (\<lambda>e. e_user e = u_id manager_m) (employees db1) = [mk_employee 1 ''E1'' 2 1]"
    by (simp add: db1_def users mk_employee_def)
  have own_e: "filter (\<lambda>e. e_user e = u_id employee_e) (employees db1) = [mk_employee 2 ''E2'' 3 1]"
    by (simp add: db1_def users mk_employee_def)
  have own_n: "filter (\<lambda>e. e_user e = u_id manager_n) (employees db1) = []"
    by (simp add: db1_def users mk_employee_def)
  have t1: "filter (\<lambda>e. employee_id e = ''E1'') (employees db1) = [mk_employee 1 ''E1'' 2 1]"
    by (simp add: db1_def mk_employee_def)
  have t3: "filter (\<lambda>e. employee_id e = ''E3'') (employees db1) = [mk_employee 3 ''E3'' 4 2]"
    by (simp add: db1_def mk_employee_def)
  note at_m = denied_requests_leave_store [where usr = manager_m and s = db1 and M = open_schema
      and S = plain_serializers and data = "onboard_payload 5000" and meth = DELETE and pk = 2
      and dep = "Some 2" and man = "Some 1" and pid = 1 and emp = "Some ''E3''"]
  from at_m gm have gated:
    "employee_list_api manager_m db1 = (Inr PermissionDenied, db1)
     \<and> create_employee_api open_schema plain_serializers manager_m (onboard_payload 5000) db1
         = (Inr PermissionDenied, db1)
     \<and> employee_detail_api open_schema manager_m DELETE 2 (onboard_payload 5000) db1
         = (Inr PermissionDenied, db1)
     \<and> update_department_manager_api open_schema manager_m (Some 2) (Some 1) db1
         = (Inr PermissionDenied, db1)
     \<and> pending_profiles_api manager_m db1 = (Inr PermissionDenied, db1)
     \<and> approve_profile_api open_schema manager_m 1 db1 = (Inr PermissionDenied, db1)"
    by simp
  have dm: "department_id (mk_employee 3 ''E3'' 4 2) \<noteq> department_id (mk_employee 1 ''E1'' 2 1)"
    by (simp add: mk_employee_def)
  from at_m rm own_m t3 dm t0
  have vm: "view_profile_api open_schema manager_m (Some ''E3'') db1
       = (Inr PermissionDenied, db1\<lparr>trace := [Read EmployeeE, Read EmployeeE]\<rparr>)"
    by simp
  have re: "role employee_e = ''EMPLOYEE''" by (simp add: users)
  have de: "e_user (mk_employee 1 ''E1'' 2 1) \<noteq> u_id employee_e"
    by (simp add: mk_employee_def users)
  from denied_requests_leave_store [where usr = employee_e and s = db1 and M = open_schema
      and emp = "Some ''E1''"] re own_e t1 de t0
  have ve: "view_profile_api open_schema employee_e (Some ''E1'') db1
       = (Inr PermissionDenied, db1\<lparr>trace := [Read EmployeeE, Read EmployeeE]\<rparr>)"
    by simp
  have rn: "role manager_n = ''MANAGER''" by (simp add: users)
  from denied_requests_leave_store [where usr = manager_n and s = db1 and M = open_schema
      and emp = "Some ''E3''"] rn own_n t0
  have vn: "view_profile_api open_schema manager_n (Some ''E3'') db1
       = (Inr PermissionDenied, db1\<lparr>trace := [Read EmployeeE]\<rparr>)"
    by simp
  have ra: "role admin_a = ''ADMIN''" by (simp add: users)
  from denied_requests_leave_store [where usr = admin_a and s = db1 and M = open_schema
      and emp = None and pid = 1] ra
  have va: "view_profile_api open_schema admin_a None db1 = (Inr PermissionDenied, db1)"
    and aa: "fst (approve_profile_api open_schema admin_a 1 db1) \<noteq> Inr PermissionDenied"
    by simp_all
  from rm gated vm ve vn va aa show ?thesis by blast
qed

subsection \<open>Own profile without an Employee record\<close>

text \<open>
  C7, as stated, fails on \<open>view_profile_api\<close>: Ann (ADMIN) has no Employee record
  and asks for her own profile without a target id; the answer is Permission denied.
\<close>

theorem own_profile_view_denied_counterexample:
  "role admin_a = ''ADMIN'' \<and> u_id admin_a = 1 \<and> map e_user (employees db1) = [2, 3, 4]
   \<and> fst (view_profile_api open_schema admin_a None db1) = Inr PermissionDenied"
  by (simp add: view_profile_api_def db1_def admin_a_def mk_user_def mk_employee_def)

text \<open>
  C7, amended: for an actor of any role who owns no Employee record, a GET on
  \<open>employee_profile_api\<close> succeeds: when the store holds the actor's profile it is
  returned without an employee record and the table is unchanged; when it holds none
  and accepts the new row, the profile is created and returned without an employee
  record. The same actor asking \<open>view_profile_api\<close> without a target id is answered
  with Permission denied.
\<close>

theorem own_profile_without_employee_record:
  assumes none: "\<forall>e \<in> set (employees s). e_user e \<noteq> u_id usr"
  shows "(\<forall>p. filter (\<lambda>p. p_employee p = u_id usr) (profiles s) = [p] \<longrightarrow>
            fst (employee_profile_api M S usr GET data s)
              = Inr (Response (ProfileData p None) HTTP_200_OK)
          \<and> profiles (snd (employee_profile_api M S usr GET data s)) = profiles s)
       \<and> (filter (\<lambda>p. p_employee p = u_id usr) (profiles s) = []
            \<and> profile_ok M (profiles s)
                 \<lparr>p_id = Suc (profile_seq s), p_employee = u_id usr,
                  p_fields = [], verified = False\<rparr> \<longrightarrow>
            fst (employee_profile_api M S usr GET data s)
              = Inr (Response (ProfileData
                   \<lparr>p_id = Suc (profile_seq s), p_employee = u_id usr,
                    p_fields = [], verified = False\<rparr> None) HTTP_200_OK)
          \<and> profiles (snd (employee_profile_api M S usr GET data s))
              = profiles s @ [\<lparr>p_id = Suc (profile_seq s), p_employee = u_id usr,
                               p_fields = [], verified = False\<rparr>])
       \<and> fst (view_profile_api M usr None s) = Inr PermissionDenied
       \<and> fst (view_profile_api M usr (Some []) s) = Inr PermissionDenied"
proof -
  from none have own: "filter (\<lambda>e. e_user e = u_id usr) (employees s) = []"
    by (intro filter_none) simp
  have a: "fst (employee_profile_api M S usr GET data s)
              = Inr (Response (ProfileData p None) HTTP_200_OK)
          \<and> profiles (snd (employee_profile_api M S usr GET data s)) = profiles s"
    if "filter (\<lambda>p. p_employee p = u_id usr) (profiles s) = [p]" for p
    using that own
    by (simp add: employee_profile_api_def Profile_get_or_create_def Profile_get_def
          Employee_get_def touch_def)
  have b: "fst (employee_profile_api M S usr GET data s)
              = Inr (Response (ProfileData
                   \<lparr>p_id = Suc (profile_seq s), p_employee = u_id usr,
                    p_fields = [], verified = False\<rparr> None) HTTP_200_OK)
          \<and> profiles (snd (employee_profile_api M S usr GET data s))
              = profiles s @ [\<lparr>p_id = Suc (profile_seq s), p_employee = u_id usr,
                               p_fields = [], verified = False\<rparr>]"
    if "filter (\<lambda>p. p_employee p = u_id usr) (profiles s) = []"
      and "profile_ok M (profiles s)
                 \<lparr>p_id = Suc (profile_seq s), p_employee = u_id usr,
                  p_fields = [], verified = False\<rparr>"
    using that own
    by (simp add: employee_profile_api_def Profile_get_or_create_def Profile_get_def
          Profile_create_def Employee_get_def touch_def Let_def)
  have c: "fst (view_profile_api M usr emp s) = Inr PermissionDenied"
    if "emp = None \<or> emp = Some []" for emp
    using that own
    by (auto simp: view_profile_api_def Employee_get_def touch_def)
  from a b c show ?thesis by blast
qed

theorem own_profile_without_employee_record_witness:
  "u_id admin_a \<notin> set (map e_user (employees db1))
   \<and> filter (\<lambda>p. p_employee p = u_id admin_a) (profiles db1) = []
   \<and> fst (employee_profile_api open_schema plain_serializers admin_a GET Map.empty db1)
       = Inr (Response (ProfileData \<lparr>p_id = 4, p_employee = 1, p_fields = [], verified = False\<rparr>
                None) HTTP_200_OK)
   \<and> profiles (snd (employee_profile_api open_schema plain_serializers admin_a GET Map.empty db1))
       = profiles db1 @ [\<lparr>p_id = 4, p_employee = 1, p_fields = [], verified = False\<rparr>]
   \<and> fst (view_profile_api open_schema admin_a None db1) = Inr PermissionDenied"
proof -
  have none: "\<forall>e \<in> set (employees db1). e_user e \<noteq> u_id admin_a"
    by (simp add: db1_def admin_a_def mk_user_def mk_employee_def)
  have absent: "filter (\<lambda>p. p_employee p = u_id admin_a) (profiles db1) = []"
    by (simp add: db1_def admin_a_def mk_user_def)
  have ok: "profile_ok open_schema (profiles db1)
              \<lparr>p_id = Suc (profile_seq db1), p_employee = u_id admin_a,
               p_fields = [], verified = False\<rparr>"
    by (simp add: open_schema_def)
  have k: "Suc (profile_seq db1) = 4" and u: "u_id admin_a = 1"
    by (simp_all add: db1_def admin_a_def mk_user_def)
  have none': "u_id admin_a \<notin> set (map e_user (employees db1))"
    using none by auto
  from own_profile_without_employee_record [OF none, of open_schema plain_serializers Map.empty]
    none' absent ok
  show ?thesis by (simp add: k u)
qed

subsection \<open>Employee update\<close>

lemma assign_fields_frame:
  "e_id (assign_fields data e) = e_id e
   \<and> employee_id (assign_fields data e) = employee_id e
   \<and> e_user (assign_fields data e) = e_user e
   \<and> department_id (assign_fields data e)
       = (case data ''department'' of None \<Rightarrow> department_id e | Some v \<Rightarrow> v)
   \<and> designation_id (assign_fields data e)
       = (case data ''designation'' of None \<Rightarrow> designation_id e | Some v \<Rightarrow> v)
   \<and> basic_salary (assign_fields data e)
       = (case data ''basic_salary'' of None \<Rightarrow> basic_salary e | Some v \<Rightarrow> v)
   \<and> date_of_joining (assign_fields data e)
       = (case data ''date_of_joining'' of None \<Rightarrow> date_of_joining e | Some v \<Rightarrow> v)"
  by (simp add: assign_fields_def Let_def split: option.splits)

text \<open>
  C8: a PUT on \<open>employee_detail_api\<close> by an ADMIN or HR actor on an existing
  employee either is rejected by the database and leaves the table as it was, or
  answers with the saved row, which is the row of that primary key afterwards: each of
  department, designation, basic salary and date of joining has the value of the
  payload when its key is present and its prior value when the key is absent, and the
  other columns keep their values. The other rows and the other tables are unchanged.
\<close>

theorem employee_update_frame:
  assumes admin: "role usr = ''ADMIN'' \<or> role usr = ''HR''"
    and ex: "filter (\<lambda>q. e_id q = pk) (employees s) = [e]"
  shows "(fst (employee_detail_api M usr PUT pk data s) = Inl DatabaseError
            \<and> employees (snd (employee_detail_api M usr PUT pk data s)) = employees s
          \<or> (\<exists>e'. fst (employee_detail_api M usr PUT pk data s)
                     = Inr (Response (EmployeeData e') HTTP_200_OK)
                \<and> filter (\<lambda>q. e_id q = pk) (employees (snd (employee_detail_api M usr PUT pk data s)))
                     = [e']
                \<and> e_id e' = e_id e \<and> employee_id e' = employee_id e \<and> e_user e' = e_user e
                \<and> department_id e'
                     = (case data ''department'' of None \<Rightarrow> department_id e | Some v \<Rightarrow> v)
                \<and> designation_id e'
                     = (case data ''designation'' of None \<Rightarrow> designation_id e | Some v \<Rightarrow> v)
                \<and> basic_salary e'
                     = (case data ''basic_salary'' of None \<Rightarrow> basic_salary e | Some v \<Rightarrow> v)
                \<and> date_of_joining e'
                     = (case data ''date_of_joining'' of None \<Rightarrow> date_of_joining e | Some v \<Rightarrow> v)))
       \<and> filter (\<lambda>q. e_id q \<noteq> pk) (employees (snd (employee_detail_api M usr PUT pk data s)))
           = filter (\<lambda>q. e_id q \<noteq> pk) (employees s)
       \<and> users (snd (employee_detail_api M usr PUT pk data s)) = users s
       \<and> departments (snd (employee_detail_api M usr PUT pk data s)) = departments s
       \<and> designations (snd (employee_detail_api M usr PUT pk data s)) = designations s
       \<and> profiles (snd (employee_detail_api M usr PUT pk data s)) = profiles s"
proof -
  let ?e = "assign_fields data e"
  let ?r = "employee_detail_api M usr PUT pk data s"
  have pk: "e_id e = pk" using filter_single_mem [OF ex] by simp
  have pk': "e_id ?e = pk" using pk by (simp add: assign_fields_frame)
  have ex': "filter (\<lambda>q. e_id q = e_id ?e) (employees s) = [e]" using ex pk' by simp
  show ?thesis
  proof (cases "employee_ok M (filter (\<lambda>q. e_id q \<noteq> pk) (employees s)) ?e")
    case False
    with admin ex pk' have "?r = (Inl DatabaseError, touch (Write EmployeeE) (touch (Read EmployeeE) s))"
      by (auto simp: employee_detail_api_def Employee_get_def Employee_save_def Let_def touch_def)
    then show ?thesis by (simp add: touch_def)
  next
    case True
    with admin ex pk' have r: "?r = (Inr (Response (EmployeeData ?e) HTTP_200_OK),
        touch (Write EmployeeE) ((touch (Read EmployeeE) s)\<lparr>employees := upsert e_id ?e (employees s)\<rparr>))"
      by (auto simp: employee_detail_api_def Employee_get_def Employee_save_def Let_def touch_def)
    have one: "filter (\<lambda>q. e_id q = pk) (upsert e_id ?e (employees s)) = [?e]"
      using upsert_single [OF ex'] pk' by simp
    have others: "filter (\<lambda>q. e_id q \<noteq> pk) (upsert e_id ?e (employees s))
                    = filter (\<lambda>q. e_id q \<noteq> pk) (employees s)"
      using upsert_other_keys [of e_id ?e "employees s"] pk' by simp
    from r one others assign_fields_frame [of data e] show ?thesis
      by (simp add: touch_def)
  qed
qed

theorem employee_update_frame_witness:
  "(role admin_a = ''ADMIN'' \<or> role admin_a = ''HR'')
   \<and> filter (\<lambda>q. e_id q = 2) (employees db1) = [mk_employee 2 ''E2'' 3 1]
   \<and> fst (employee_detail_api open_schema admin_a PUT 2 salary_only db1)
       = Inr (Response (EmployeeData ((mk_employee 2 ''E2'' 3 1)\<lparr>basic_salary := VInt 2500\<rparr>))
               HTTP_200_OK)
   \<and> filter (\<lambda>q. e_id q = 2)
        (employees (snd (employee_detail_api open_schema admin_a PUT 2 salary_only db1)))
       = [(mk_employee 2 ''E2'' 3 1)\<lparr>basic_salary := VInt 2500\<rparr>]
   \<and> filter (\<lambda>q. e_id q \<noteq> 2)
        (employees (snd (employee_detail_api open_schema admin_a PUT 2 salary_only db1)))
       = [mk_employee 1 ''E1'' 2 1, mk_employee 3 ''E3'' 4 2]"
proof -
  have admin: "role admin_a = ''ADMIN'' \<or> role admin_a = ''HR''"
    by (simp add: admin_a_def mk_user_def)
  have ex: "filter (\<lambda>q. e_id q = 2) (employees db1) = [mk_employee 2 ''E2'' 3 1]"
    by (simp add: db1_def mk_employee_def)
  have rest: "filter (\<lambda>q. e_id q \<noteq> 2) (employees db1) = [mk_employee 1 ''E1'' 2 1, mk_employee 3 ''E3'' 4 2]"
    by (simp add: db1_def mk_employee_def)
  have res: "fst (employee_detail_api open_schema admin_a PUT 2 salary_only db1)
       = Inr (Response (EmployeeData ((mk_employee 2 ''E2'' 3 1)\<lparr>basic_salary := VInt 2500\<rparr>))
               HTTP_200_OK)"
    by (simp add: employee_detail_api_def Employee_get_def Employee_save_def touch_def
          assign_fields_def salary_only_def Let_def db1_def admin_a_def mk_user_def
          mk_employee_def open_schema_def)
  from employee_update_frame [OF admin ex, of open_schema salary_only] admin ex rest res
  show ?thesis by auto
qed

subsection \<open>Onboarding\<close>

text \<open>
  C9, as stated, fails: with a salary column that rejects the submitted salary, the
  creation of the Employee fails after the user Joe has been created; Joe stays in the
  store, with no Employee record and no Profile.
\<close>

theorem onboarding_orphan_counterexample:
  "role admin_a = ''ADMIN''
   \<and> fst (create_employee_api salary_schema plain_serializers admin_a (onboard_payload 100000000) db1)
       = Inl DatabaseError
   \<and> users (snd (create_employee_api salary_schema plain_serializers admin_a
                    (onboard_payload 100000000) db1))
       = users db1 @ [mk_user 6 ''joe'' ''EMPLOYEE''\<lparr>password := ''pw''\<rparr>]
   \<and> map e_user (employees (snd (create_employee_api salary_schema plain_serializers admin_a
                    (onboard_payload 100000000) db1))) = [2, 3, 4]
   \<and> map p_employee (profiles (snd (create_employee_api salary_schema plain_serializers admin_a
                    (onboard_payload 100000000) db1))) = [2, 3, 4]"
  by (simp add: create_employee_api_def User_create_user_def Employee_create_def touch_def
        Let_def salary_schema_def open_schema_def plain_serializers_def
        onboard_payload_def db1_def admin_a_def manager_m_def employee_e_def employee_f_def
        manager_n_def mk_user_def mk_employee_def)

text \<open>
  C9, amended: onboarding is three separate writes without rollback. For an ADMIN or
  HR actor and a valid payload: when the user row is rejected nothing is created; when
  the Employee row is rejected the request fails and the new user stays in the store;
  when the Profile row is rejected the request fails and the new user and Employee
  stay; when all three rows are accepted the answer has status 201 and the store has
  gained the user, the Employee and the Profile.
\<close>

theorem onboarding_steps_without_rollback:
  assumes admin: "role usr = ''ADMIN'' \<or> role usr = ''HR''"
    and valid: "create_serializer S data = Inr vd"
  shows "let u = \<lparr>u_id = Suc (user_seq s), username = cd_username vd,
                  password = cd_password vd,
                  first_name = (case cd_first_name vd of None \<Rightarrow> [] | Some x \<Rightarrow> x),
                  last_name = (case cd_last_name vd of None \<Rightarrow> [] | Some x \<Rightarrow> x),
                  email = (case cd_email vd of None \<Rightarrow> [] | Some x \<Rightarrow> x),
                  role = ''EMPLOYEE''\<rparr>;
             e = \<lparr>e_id = Suc (employee_seq s),
                  employee_id = new_employee_id M (employees s) (Suc (employee_seq s)),
                  e_user = u_id u, department_id = cd_department vd,
                  designation_id = cd_designation vd,
                  date_of_joining = cd_date_of_joining vd, basic_salary = cd_basic_salary vd\<rparr>;
             p = \<lparr>p_id = Suc (profile_seq s), p_employee = u_id u,
                  p_fields = [], verified = False\<rparr>;
             r = create_employee_api M S usr data s
         in (\<not> user_ok M (users s) u \<longrightarrow>
               fst r = Inl DatabaseError \<and> users (snd r) = users s
               \<and> employees (snd r) = employees s \<and> profiles (snd r) = profiles s)
          \<and> (user_ok M (users s) u \<and> \<not> employee_ok M (employees s) e \<longrightarrow>
               fst r = Inl DatabaseError \<and> users (snd r) = users s @ [u]
               \<and> employees (snd r) = employees s \<and> profiles (snd r) = profiles s)
          \<and> (user_ok M (users s) u \<and> employee_ok M (employees s) e
               \<and> \<not> profile_ok M (profiles s) p \<longrightarrow>
               fst r = Inl DatabaseError \<and> users (snd r) = users s @ [u]
               \<and> employees (snd r) = employees s @ [e] \<and> profiles (snd r) = profiles s)
          \<and> (user_ok M (users s) u \<and> employee_ok M (employees s) e
               \<and> profile_ok M (profiles s) p \<longrightarrow>
               fst r = Inr (Response (EmployeeData e) HTTP_201_CREATED)
               \<and> users (snd r) = users s @ [u]
               \<and> employees (snd r) = employees s @ [e] \<and> profiles (snd r) = profiles s @ [p])"
  using admin valid
  by (auto simp: create_employee_api_def User_create_user_def Employee_create_def
        Profile_create_def touch_def Let_def)

theorem onboarding_steps_without_rollback_witness:
  "(role admin_a = ''ADMIN'' \<or> role admin_a = ''HR'')
   \<and> (\<exists>vd. create_serializer plain_serializers (onboard_payload 100000000) = Inr vd)
   \<and> fst (create_employee_api salary_schema plain_serializers admin_a (onboard_payload 100000000) db1)
       = Inl DatabaseError
   \<and> users (snd (create_employee_api salary_schema plain_serializers admin_a
                    (onboard_payload 100000000) db1))
       = users db1 @ [mk_user 6 ''joe'' ''EMPLOYEE''\<lparr>password := ''pw''\<rparr>]
   \<and> employees (snd (create_employee_api salary_schema plain_serializers admin_a
                    (onboard_payload 100000000) db1)) = employees db1
   \<and> fst (create_employee_api salary_schema plain_serializers admin_a (onboard_payload 5000) db1)
       = Inr (Response (EmployeeData \<lparr>e_id = 4, employee_id = ''IIII'', e_user = 6,
                department_id = VInt 1, designation_id = VInt 1,
                date_of_joining = VStr ''2025-05-01'', basic_salary = VInt 5000\<rparr>)
              HTTP_201_CREATED)
   \<and> profiles (snd (create_employee_api salary_schema plain_serializers admin_a
                    (onboard_payload 5000) db1))
       = profiles db1 @ [\<lparr>p_id = 4, p_employee = 6, p_fields = [], verified = False\<rparr>]"
proof -
  let ?vd = "\<lambda>sal. \<lparr>cd_username = ''joe'', cd_password = ''pw'', cd_first_name = None,
                      cd_last_name = None, cd_email = None, cd_department = VInt 1,
                      cd_designation = VInt 1, cd_date_of_joining = VStr ''2025-05-01'',
                      cd_basic_salary = VInt sal\<rparr>"
  have admin: "role admin_a = ''ADMIN'' \<or> role admin_a = ''HR''"
    by (simp add: admin_a_def mk_user_def)
  have valid: "create_serializer plain_serializers (onboard_payload sal) = Inr (?vd sal)" for sal
    by (simp add: plain_serializers_def onboard_payload_def)
  have ids: "Suc (user_seq db1) = 6" "Suc (employee_seq db1) = 4"
    "Suc (profile_seq db1) = 4"
    by (simp_all add: db1_def admin_a_def manager_m_def employee_e_def
          employee_f_def manager_n_def mk_user_def mk_employee_def)
  from onboarding_steps_without_rollback [OF admin valid [of 100000000], where M = salary_schema and s = db1]
  have bad: "fst (create_employee_api salary_schema plain_serializers admin_a (onboard_payload 100000000) db1)
       = Inl DatabaseError
   \<and> users (snd (create_employee_api salary_schema plain_serializers admin_a
                    (onboard_payload 100000000) db1))
       = users db1 @ [mk_user 6 ''joe'' ''EMPLOYEE''\<lparr>password := ''pw''\<rparr>]
   \<and> employees (snd (create_employee_api salary_schema plain_serializers admin_a
                    (onboard_payload 100000000) db1)) = employees db1"
    by (simp add: Let_def ids salary_schema_def open_schema_def mk_user_def)
  from onboarding_steps_without_rollback [OF admin valid [of 5000], where M = salary_schema and s = db1]
  have good: "fst (create_employee_api salary_schema plain_serializers admin_a (onboard_payload 5000) db1)
       = Inr (Response (EmployeeData \<lparr>e_id = 4, employee_id = ''IIII'', e_user = 6,
                department_id = VInt 1, designation_id = VInt 1,
                date_of_joining = VStr ''2025-05-01'', basic_salary = VInt 5000\<rparr>)
              HTTP_201_CREATED)
   \<and> profiles (snd (create_employee_api salary_schema plain_serializers admin_a
                    (onboard_payload 5000) db1))
       = profiles db1 @ [\<lparr>p_id = 4, p_employee = 6, p_fields = [], verified = False\<rparr>]"
    by (simp add: Let_def ids salary_schema_def open_schema_def mk_user_def numeral_eq_Suc)
  from admin valid bad good show ?thesis by blast
qed

text \<open>
  C10: whatever the payload and the serializer, every user that \<open>create_employee_api\<close>
  adds to the store has the role EMPLOYEE, and a request answered with status 201 has
  added exactly one user, of role EMPLOYEE, who owns the Employee record of the answer.
\<close>

theorem onboarded_role_is_employee:
  "set (users (snd (create_employee_api M S usr data s)))
     \<subseteq> set (users s) \<union> {u. role u = ''EMPLOYEE''}
   \<and> (\<forall>b. fst (create_employee_api M S usr data s) = Inr (Response b HTTP_201_CREATED) \<longrightarrow>
         (\<exists>u e. users (snd (create_employee_api M S usr data s)) = users s @ [u]
                \<and> role u = ''EMPLOYEE'' \<and> b = EmployeeData e \<and> e_user e = u_id u))"
proof -
  note http = PermissionDenied_def HTTP_201_CREATED_def HTTP_400_BAD_REQUEST_def HTTP_403_FORBIDDEN_def
  have a: "set (users (snd (create_employee_api M S usr data s)))
     \<subseteq> set (users s) \<union> {u. role u = ''EMPLOYEE''}"
    by (auto simp: create_employee_api_def User_create_user_def Employee_create_def
          Profile_create_def touch_def Let_def split: sum.splits if_splits)
  have b: "\<exists>u e. users (snd (create_employee_api M S usr data s)) = users s @ [u]
                \<and> role u = ''EMPLOYEE'' \<and> b = EmployeeData e \<and> e_user e = u_id u"
    if "fst (create_employee_api M S usr data s) = Inr (Response b HTTP_201_CREATED)" for b
    using that
    by (auto simp: create_employee_api_def User_create_user_def Employee_create_def
          Profile_create_def touch_def Let_def http split: sum.splits if_splits)
  from a b show ?thesis by blast
qed

theorem onboarded_role_is_employee_witness:
  "onboard_payload 5000 ''role'' = Some (VStr ''ADMIN'')
   \<and> fst (create_employee_api open_schema plain_serializers admin_a (onboard_payload 5000) db1)
       = Inr (Response (EmployeeData \<lparr>e_id = 4, employee_id = ''IIII'', e_user = 6,
                department_id = VInt 1, designation_id = VInt 1,
                date_of_joining = VStr ''2025-05-01'', basic_salary = VInt 5000\<rparr>)
              HTTP_201_CREATED)
   \<and> (\<exists>u. users (snd (create_employee_api open_schema plain_serializers admin_a
                        (onboard_payload 5000) db1)) = users db1 @ [u]
          \<and> role u = ''EMPLOYEE'' \<and> u_id u = 6)"
proof -
  have pay: "onboard_payload 5000 ''role'' = Some (VStr ''ADMIN'')"
    by (simp add: onboard_payload_def)
  have res: "fst (create_employee_api open_schema plain_serializers admin_a (onboard_payload 5000) db1)
       = Inr (Response (EmployeeData \<lparr>e_id = 4, employee_id = ''IIII'', e_user = 6,
                department_id = VInt 1, designation_id = VInt 1,
                date_of_joining = VStr ''2025-05-01'', basic_salary = VInt 5000\<rparr>)
              HTTP_201_CREATED)"
    by (simp add: create_employee_api_def User_create_user_def Employee_create_def
          Profile_create_def touch_def Let_def open_schema_def plain_serializers_def
          onboard_payload_def db1_def admin_a_def manager_m_def employee_e_def employee_f_def
          manager_n_def mk_user_def mk_employee_def numeral_eq_Suc)
  from onboarded_role_is_employee [of open_schema plain_serializers admin_a "onboard_payload 5000" db1]
    res pay
  show ?thesis by auto
qed

end
